theory Spec2Isabelle
  imports Main "HOL-Library.Sublist" "HOL-Library.Char_ord" "HOL-Library.List_Lexorder"
begin

section \<open>Python values and library functions used by the notebooks\<close>

text \<open>
  The repository is a set of Jupyter notebooks. The sources at hand are the HDA how-to
  notebook, the Sentinel-3 OLCI retrieval notebook and the marine-heatwaves notebook.
  The helper module \<open>hda_api_functions\<close> that they import is not among them.

  Exceptions are values. \<open>Raised\<close> stands for an exception of any other class, raised by a
  helper of \<open>hda_api_functions\<close> or by a library call.
\<close>

datatype exn =
    NameError string
  | KeyError string
  | IndexError string
  | FileNotFoundError string
  | Raised string

text \<open>\<open>str(n)\<close> for a natural number.\<close>

definition digit_char :: "nat \<Rightarrow> char" where
  "digit_char d = ''0123456789'' ! d"

function str_nat :: "nat \<Rightarrow> string" where
  "str_nat n = (if n < 10 then [digit_char n] else str_nat (n div 10) @ [digit_char (n mod 10)])"
  by pat_completeness auto
termination
  by (relation "measure id") auto

declare str_nat.simps [simp del]

text \<open>
  \<open>s.replace(old, new)\<close> for a non-empty \<open>old\<close>: the leftmost occurrences, not overlapping.
  The counter is the number of characters of a matched occurrence still to be skipped.
\<close>

fun replace_from :: "nat \<Rightarrow> string \<Rightarrow> string \<Rightarrow> string \<Rightarrow> string" where
  "replace_from k old new [] = []"
| "replace_from k old new (c # cs) =
     (if 0 < k then replace_from (k - 1) old new cs
      else if prefix old (c # cs) then new @ replace_from (length old - 1) old new cs
      else c # replace_from 0 old new cs)"

definition py_replace :: "string \<Rightarrow> string \<Rightarrow> string \<Rightarrow> string" where
  "py_replace old new s = replace_from 0 old new s"

text \<open>\<open>s.split(c)[0]\<close> for a one-character separator, and \<open>sub in s\<close>.\<close>

definition split_head :: "char \<Rightarrow> string \<Rightarrow> string" where
  "split_head c s = takeWhile (\<lambda>x. x \<noteq> c) s"

fun py_in :: "string \<Rightarrow> string \<Rightarrow> bool" where
  "py_in sub [] = (sub = [])"
| "py_in sub (c # cs) = (prefix sub (c # cs) \<or> py_in sub cs)"

text \<open>
  \<open>os.path.join(a, b)\<close> of posixpath: an absolute \<open>b\<close> discards \<open>a\<close>; a separator is added
  unless \<open>a\<close> is empty or ends with one.
\<close>

definition path_join :: "string \<Rightarrow> string \<Rightarrow> string" where
  "path_join a b =
     (if prefix ''/'' b then b
      else if a = [] \<or> last a = CHR ''/'' then a @ b
      else a @ ''/'' @ b)"

text \<open>
  \<open>os.path.splitext(p)[-1]\<close> of posixpath: the extension starts at the last dot of the last
  path component, and the leading dots of that component do not start an extension.
  \<open>rfind\<close> is Python's \<open>str.rfind\<close> for one character, -1 when it does not occur.
\<close>

fun rfind_from :: "char \<Rightarrow> int \<Rightarrow> int \<Rightarrow> string \<Rightarrow> int" where
  "rfind_from c i found [] = found"
| "rfind_from c i found (x # xs) = rfind_from c (i + 1) (if x = c then i else found) xs"

definition rfind :: "char \<Rightarrow> string \<Rightarrow> int" where
  "rfind c p = rfind_from c 0 (-1) p"

definition splitext_ext :: "string \<Rightarrow> string" where
  "splitext_ext p =
     (let sepIndex = rfind CHR ''/'' p;
          dotIndex = rfind CHR ''.'' p
      in if dotIndex > sepIndex
            \<and> (\<exists>x \<in> set (take (nat (dotIndex - (sepIndex + 1))) (drop (nat (sepIndex + 1)) p)).
                  x \<noteq> CHR ''.'')
         then drop (nat dotIndex) p
         else [])"

text \<open>\<open>os.path.dirname(p)\<close> of posixpath.\<close>

fun rstrip :: "char \<Rightarrow> string \<Rightarrow> string" where
  "rstrip c s = rev (dropWhile (\<lambda>x. x = c) (rev s))"

definition dirname :: "string \<Rightarrow> string" where
  "dirname p =
     (let i = nat (rfind CHR ''/'' p + 1);
          head = take i p
      in if head \<noteq> [] \<and> head \<noteq> replicate (length head) CHR ''/''
         then rstrip CHR ''/'' head
         else head)"

section \<open>The HDA dictionary, the helper module and the kernel state\<close>

text \<open>
  The dictionary that every helper takes and returns. The notebooks read
  \<open>['results']['totItems']\<close>, \<open>['results']['itemsInPage']\<close>,
  \<open>['results']['content'][0]['filename']\<close> and \<open>['filenames']\<close>; a key that is absent is
  \<open>None\<close> and reading it raises \<open>KeyError\<close>. Everything else the helpers keep in the
  dictionary is the extension of the record.
\<close>

record result_file =
  filename :: string

record results =
  content :: "result_file list"
  totItems :: int
  itemsInPage :: int

record hda_dict =
  results :: "results option"
  filenames :: "string list option"

text \<open>
  The helpers, as parameters: each returns the updated dictionary or raises (a helper
  that never returns is not modelled). The optional arguments (\<open>page\<close>, \<open>verbose\<close>,
  \<open>file_extension\<close>, \<open>user_filename\<close>) are \<open>None\<close> where the call leaves them out.
\<close>

record 'm hapi =
  hapi_init :: "string \<Rightarrow> string \<Rightarrow> string \<Rightarrow> exn + 'm hda_dict_scheme"
  hapi_get_access_token :: "'m hda_dict_scheme \<Rightarrow> exn + 'm hda_dict_scheme"
  hapi_acceptTandC :: "'m hda_dict_scheme \<Rightarrow> exn + 'm hda_dict_scheme"
  hapi_get_job_id :: "'m hda_dict_scheme \<Rightarrow> string \<Rightarrow> exn + 'm hda_dict_scheme"
  hapi_get_results_list ::
    "'m hda_dict_scheme \<Rightarrow> int option \<Rightarrow> bool option \<Rightarrow> exn + 'm hda_dict_scheme"
  hapi_get_order_ids :: "'m hda_dict_scheme \<Rightarrow> exn + 'm hda_dict_scheme"
  hapi_download_data ::
    "'m hda_dict_scheme \<Rightarrow> string option \<Rightarrow> string option \<Rightarrow> exn + 'm hda_dict_scheme"

text \<open>
  What a run leaves behind, in order: the helper calls with their arguments, the printed
  lines, the archive operations and the calls into the plotting and analysis libraries.
\<close>

datatype event =
    Init string string string
  | GetAccessToken
  | AcceptTandC
  | GetJobId string
  | GetResultsList "int option" "bool option"
  | GetOrderIds
  | DownloadData "string option" "string option"
  | Print string
  | PrintDict
  | PrintFound int int
  | ExtractAll string string
  | Remove string
  | Analysis string

text \<open>
  The outside world of a run: the working directory, the JSON parser (a parsed value is
  represented by its text), \<open>ZipFile(f, 'r').extractall(d)\<close>, which returns the files
  as it leaves them and the exception it raised, if any, \<open>glob.glob(pattern)\<close> on the
  files there are, and a call into one of the plotting and analysis libraries (\<open>xarray\<close>,
  \<open>numpy\<close>, \<open>matplotlib\<close>, \<open>marineHeatWaves\<close>, the notebook's own \<open>SST_plotter\<close>) with the
  file names it is given, which returns or raises.
\<close>

record world =
  cwd :: string
  json_loads :: "string \<Rightarrow> exn + string"
  extractall :: "string \<Rightarrow> string \<Rightarrow> (string \<rightharpoonup> string) \<Rightarrow> exn option \<times> (string \<rightharpoonup> string)"
  glob :: "string \<Rightarrow> (string \<rightharpoonup> string) \<Rightarrow> string list"
  library :: "string \<Rightarrow> string list \<Rightarrow> exn option"

text \<open>
  The kernel's variables that the cells below read or write, the files on disk (path to
  content) and the events so far. \<open>HAPI_dict\<close> is \<open>None\<close> while the name is not bound
  (the two how-to notebooks call it \<open>hda_dict\<close>), and so are \<open>SLSTR_files\<close> and
  \<open>SST_file_list\<close>, the notebook's list \<open>SST_files\<close>. The cells that only import modules,
  assign constants or create the download directory are left out; \<open>api_key\<close> is the
  value that \<open>generate_api_key\<close> returned, and \<open>query\<close> is also the \<open>data\<close> of the how-to
  notebooks.
\<close>

record 'm kernel =
  download_data :: bool
  api_key :: string
  dataset_id :: string
  JSON_query_file :: string
  query :: string
  HAPI_dict :: "'m hda_dict_scheme option"
  total_results :: int
  found_results :: int
  page_count :: int
  SLSTR_files :: "string list option"
  SST_file_list :: "string list option"
  files :: "string \<rightharpoonup> string"
  trace :: "event list"

text \<open>
  A statement returns the new state, raises (the state is what it had done so far) or
  does not return at all (\<open>None\<close>). A block runs its statements in order and stops at the
  first that raises.
\<close>

datatype 's result = Done 's | Raise exn 's

fun run_steps :: "('s \<Rightarrow> 's result option) list \<Rightarrow> 's \<Rightarrow> 's result option" where
  "run_steps [] s = Some (Done s)"
| "run_steps (p # ps) s =
     (case p s of
        None \<Rightarrow> None
      | Some (Raise e s') \<Rightarrow> Some (Raise e s')
      | Some (Done s') \<Rightarrow> run_steps ps s')"

definition emit :: "event \<Rightarrow> 'm kernel \<Rightarrow> 'm kernel" where
  "emit ev s = s\<lparr>trace := trace s @ [ev]\<rparr>"

definition say :: "string \<Rightarrow> 'm kernel \<Rightarrow> 'm kernel result option" where
  "say msg s = Some (Done (emit (Print msg) s))"

definition assign :: "('m kernel \<Rightarrow> 'm kernel) \<Rightarrow> 'm kernel \<Rightarrow> 'm kernel result option" where
  "assign f s = Some (Done (f s))"

text \<open>
  \<open>HAPI_dict = hapi.f(HAPI_dict, ...)\<close>, and \<open>hda_dict = f(hda_dict, ...)\<close> in the how-to
  notebooks: the argument is looked up first under the name that the notebook gives the
  dictionary, the call is recorded when it is made, and the name is rebound only when
  the call returns.
\<close>

definition call_hapi ::
  "string \<Rightarrow> event \<Rightarrow> ('m hda_dict_scheme \<Rightarrow> exn + 'm hda_dict_scheme) \<Rightarrow> 'm kernel
     \<Rightarrow> 'm kernel result option"
where
  "call_hapi name ev f s =
     (case HAPI_dict s of
        None \<Rightarrow> Some (Raise (NameError name) s)
      | Some d \<Rightarrow>
          (case f d of
             Inl e \<Rightarrow> Some (Raise e (emit ev s))
           | Inr d' \<Rightarrow> Some (Done ((emit ev s)\<lparr>HAPI_dict := Some d'\<rparr>))))"

definition download_dir_path :: "world \<Rightarrow> string" where
  "download_dir_path w = path_join (cwd w) ''products''"

definition JSON_query_dir :: "world \<Rightarrow> string" where
  "JSON_query_dir w = path_join (path_join (cwd w) ''JSON_templates'') ''mhw''"

definition verbose :: bool where
  "verbose = False"

definition call_init :: "'m hapi \<Rightarrow> string \<Rightarrow> 'm kernel \<Rightarrow> 'm kernel result option" where
  "call_init h dir s =
     (let s1 = emit (Init (dataset_id s) (api_key s) dir) s
      in case hapi_init h (dataset_id s) (api_key s) dir of
           Inl e \<Rightarrow> Some (Raise e s1)
         | Inr d \<Rightarrow> Some (Done (s1\<lparr>HAPI_dict := Some d\<rparr>)))"

definition call_get_job_id :: "string \<Rightarrow> 'm hapi \<Rightarrow> 'm kernel \<Rightarrow> 'm kernel result option" where
  "call_get_job_id name h s =
     call_hapi name (GetJobId (query s)) (\<lambda>d. hapi_get_job_id h d (query s)) s"

text \<open>\<open>with open(path, 'r') as f: text = f.read()\<close>.\<close>

definition read_text :: "string \<Rightarrow> 'm kernel \<Rightarrow> exn + string" where
  "read_text path s =
     (case files s path of None \<Rightarrow> Inl (FileNotFoundError path) | Some text \<Rightarrow> Inr text)"


text \<open>
  \<open>try: body except: handler\<close> with a bare \<open>except\<close>: the handler runs on any exception
  and does not see it.
\<close>

definition try_except ::
  "('s \<Rightarrow> 's result option) \<Rightarrow> ('s \<Rightarrow> 's result option) \<Rightarrow> 's \<Rightarrow> 's result option"
where
  "try_except body handler s =
     (case body s of
        None \<Rightarrow> None
      | Some (Done s') \<Rightarrow> Some (Done s')
      | Some (Raise e s') \<Rightarrow> handler s')"

section \<open>The marine-heatwaves notebook\<close>

subsection \<open>The SLSTR download cell\<close>


definition query_file_of :: "world \<Rightarrow> string \<Rightarrow> string" where
  "query_file_of w ds = path_join (JSON_query_dir w) (py_replace '':'' ''_'' ds @ ''.json'')"


text \<open>\<open>with open(JSON_query_file, 'r') as f: query = json.load(f)\<close>.\<close>

definition load_query :: "world \<Rightarrow> 'm kernel \<Rightarrow> 'm kernel result option" where
  "load_query w s =
     (case read_text (JSON_query_file s) s of
        Inl e \<Rightarrow> Some (Raise e s)
      | Inr text \<Rightarrow>
          (case json_loads w text of
             Inl e \<Rightarrow> Some (Raise e s)
           | Inr q \<Rightarrow> Some (Done (s\<lparr>query := q\<rparr>))))"

text \<open>Reading \<open>HAPI_dict['results']\<close>, under the name that the notebook gives the dictionary.\<close>

definition read_results :: "string \<Rightarrow> 'm kernel \<Rightarrow> exn + results" where
  "read_results name s =
     (case HAPI_dict s of
        None \<Rightarrow> Inl (NameError name)
      | Some d \<Rightarrow> (case results d of None \<Rightarrow> Inl (KeyError ''results'') | Some r \<Rightarrow> Inr r))"

definition read_page_totals :: "'m kernel \<Rightarrow> 'm kernel result option" where
  "read_page_totals s =
     (case read_results ''HAPI_dict'' s of
        Inl e \<Rightarrow> Some (Raise e s)
      | Inr r \<Rightarrow>
          Some (Done (s\<lparr>total_results := totItems r,
                         found_results := found_results s + itemsInPage r\<rparr>)))"

text \<open>The body of \<open>while found_results < total_results\<close> and the loop.\<close>

definition page_body :: "'m hapi \<Rightarrow> ('m kernel \<Rightarrow> 'm kernel result option) list" where
  "page_body h =
     [assign (\<lambda>s. s\<lparr>page_count := page_count s + 1\<rparr>),
      (\<lambda>s. call_hapi ''HAPI_dict'' (GetResultsList (Some (page_count s)) (Some verbose))
              (\<lambda>d. hapi_get_results_list h d (Some (page_count s)) (Some verbose)) s),
      read_page_totals,
      say ''------------------'',
      (\<lambda>s. Some (Done (emit (PrintFound (found_results s) (total_results s)) s))),
      say ''------------------'',
      say ''Getting order ids...'',
      call_hapi ''HAPI_dict'' GetOrderIds (hapi_get_order_ids h),
      say ''Downloading data...'',
      call_hapi ''HAPI_dict'' (DownloadData (Some ''.zip'') None)
        (\<lambda>d. hapi_download_data h d (Some ''.zip'') None)]"

partial_function (option) page_loop :: "'m hapi \<Rightarrow> 'm kernel \<Rightarrow> 'm kernel result option" where
  "page_loop h s =
     (if found_results s < total_results s
      then (case run_steps (page_body h) s of
              None \<Rightarrow> None
            | Some (Raise e s') \<Rightarrow> Some (Raise e s')
            | Some (Done s') \<Rightarrow> page_loop h s')
      else Some (Done s))"

text \<open>
  The cell. \<open>total_results = 1e6\<close> is the number 1000000. The name \<open>asdf\<close> is bound
  nowhere in the notebook: no cell assigns it and every import is qualified.
\<close>

definition slstr_download_cell :: "'m hapi \<Rightarrow> world \<Rightarrow> 'm kernel \<Rightarrow> 'm kernel result option" where
  "slstr_download_cell h w s =
     (if download_data s
      then run_steps
        [assign (\<lambda>s. s\<lparr>total_results := 1000000\<rparr>),
         call_init h (download_dir_path w),
         call_hapi ''HAPI_dict'' GetAccessToken (hapi_get_access_token h),
         call_hapi ''HAPI_dict'' AcceptTandC (hapi_acceptTandC h),
         load_query w,
         say ''Launching job...'',
         call_get_job_id ''HAPI_dict'' h,
         say ''Getting results...'',
         say ''------------------'',
         assign (\<lambda>s. s\<lparr>found_results := 0, page_count := - 1\<rparr>),
         (\<lambda>s. Some (Done (emit PrintDict s))),
         (\<lambda>s. Some (Raise (NameError ''asdf'') s)),
         page_loop h] s
      else Some (Done s))"

subsection \<open>The unzip cell\<close>

text \<open>
  \<open>zipObj.extractall(os.path.dirname(filename))\<close> on \<open>ZipFile(filename, 'r')\<close>, and
  \<open>os.remove(filename)\<close>, which raises when the file is not there. Each records the
  attempt.
\<close>

definition zip_extractall :: "world \<Rightarrow> string \<Rightarrow> 'm kernel \<Rightarrow> 'm kernel result option" where
  "zip_extractall w f s =
     (let s1 = emit (ExtractAll f (dirname f)) s
      in case extractall w f (dirname f) (files s1) of
           (Some e, fs') \<Rightarrow> Some (Raise e (s1\<lparr>files := fs'\<rparr>))
         | (None, fs') \<Rightarrow> Some (Done (s1\<lparr>files := fs'\<rparr>)))"

definition os_remove :: "string \<Rightarrow> 'm kernel \<Rightarrow> 'm kernel result option" where
  "os_remove f s =
     (let s1 = emit (Remove f) s
      in case files s1 f of
           None \<Rightarrow> Some (Raise (FileNotFoundError f) s1)
         | Some c \<Rightarrow> Some (Done (s1\<lparr>files := (files s1)(f := None)\<rparr>)))"

definition unzip_one :: "world \<Rightarrow> string \<Rightarrow> 'm kernel \<Rightarrow> 'm kernel result option" where
  "unzip_one w f s =
     (if splitext_ext f = ''.zip''
      then run_steps
        [say ''Unzipping file'',
         try_except (run_steps [zip_extractall w f, os_remove f]) (say ''Failed to unzip....'')] s
      else Some (Done s))"


subsection \<open>The SLSTR plot\<close>




subsection \<open>The SST download cell\<close>

definition REP_dataset :: string where
  "REP_dataset = ''EO:MO:DAT:SST_GLO_SST_L4_REP_OBSERVATIONS_010_011''"

definition NRT_dataset :: string where
  "NRT_dataset = ''EO:MO:DAT:SST_GLO_SST_L4_NRT_OBSERVATIONS_010_001''"

text \<open>
  \<open>zip(start_dates, end_dates, dataset_ids)\<close> after the two \<open>for ii in range(...)\<close> loops.
\<close>

definition year_request :: "string \<Rightarrow> nat \<Rightarrow> string \<times> string \<times> string" where
  "year_request ds ii =
     (str_nat ii @ ''-01-01T00:00:00.000Z'', str_nat ii @ ''-12-31T00:00:00.000Z'', ds)"

definition sst_requests :: "(string \<times> string \<times> string) list" where
  "sst_requests =
     map (year_request REP_dataset) [2008 ..< 2019 + 1]
     @ map (year_request NRT_dataset) [2020 ..< 2021 + 1]"

definition date_tag :: "string \<Rightarrow> string \<Rightarrow> string" where
  "date_tag start_date end_date =
     split_head CHR ''T'' start_date @ ''_'' @ split_head CHR ''T'' end_date"

definition tag :: "string \<Rightarrow> string" where
  "tag ds = (if py_in ''NRT'' ds then ''XNRT'' else ''REP'')"

text \<open>\<open>'METOFFICE-GLO-SST-L4-{0}_{1}.nc'.format(tag, date_tag)\<close>.\<close>

definition user_filename :: "string \<times> string \<times> string \<Rightarrow> string" where
  "user_filename r =
     (case r of (start_date, end_date, ds) \<Rightarrow>
        ''METOFFICE-GLO-SST-L4-'' @ tag ds @ ''_'' @ date_tag start_date end_date @ ''.nc'')"




subsection \<open>The SST time series\<close>

text \<open>
  \<open>my_files = glob.glob(os.path.join(download_dir_path, 'METOFFICE-GLO-SST-L4-*'))\<close> and
  \<open>for SST_file in sorted(my_files): SST_files.append(SST_file)\<close>. Python orders strings
  by code point, character by character, a proper prefix first: the lexicographic order
  of lists of characters.
\<close>

definition sst_download_paths :: "world \<Rightarrow> string list" where
  "sst_download_paths w = map (\<lambda>r. path_join (download_dir_path w) (user_filename r)) sst_requests"

definition SST_files :: "string list \<Rightarrow> string list" where
  "SST_files my_files = sort my_files"






section \<open>The two HDA how-to notebooks\<close>


definition howto_data :: string where
  "howto_data =
     ''{datasetId: EO:MO:DAT:GLOBAL_ANALYSIS_FORECAST_WAV_001_027:global-analysis-forecast-wav-001-027, ''
     @ ''boundingBoxValues: [{name: bbox, bbox: [-9.748386572526352, 42.52096810045425, -0.5582870716788746, 44.45042413221037]}], ''
     @ ''dateRangeSelectValues: [{name: position, start: 2021-12-01T00:00:00.000Z, end: 2021-12-06T00:00:00.000Z}], ''
     @ ''multiStringSelectValues: [{name: variable, value: [VHM0_SW1]}], ''
     @ ''stringChoiceValues: [{name: service, value: GLOBAL_ANALYSIS_FORECAST_WAV_001_027-TDS}, ''
     @ ''{name: product, value: global-analysis-forecast-wav-001-027}]}''"



text \<open>
  The raw cell of the how-to notebook:
  \<open>try: with open(...) as f: data = json.load(f); print(...); print(data) except: print(...)\<close>.
\<close>

definition load_descriptor :: "world \<Rightarrow> 'm kernel \<Rightarrow> 'm kernel result option" where
  "load_descriptor w s =
     (case read_text ''./olci_data_descriptor.json'' s of
        Inl e \<Rightarrow> Some (Raise e s)
      | Inr text \<Rightarrow>
          (case json_loads w text of
             Inl e \<Rightarrow> Some (Raise e s)
           | Inr q \<Rightarrow> Some (Done (s\<lparr>query := q\<rparr>))))"

definition load_descriptor_cell :: "world \<Rightarrow> 'm kernel \<Rightarrow> 'm kernel result option" where
  "load_descriptor_cell w =
     try_except
       (run_steps
          [load_descriptor w,
           say ''Your JSON file:'',
           (\<lambda>s. say (query s) s)])
       (say ''Your JSON file is not in the correct format, or is not found, please check it!'')"



section \<open>Running a notebook\<close>



text \<open>
  The stages of the workflow in the order the specification gives them: the session
  (\<open>init\<close>, \<open>get_access_token\<close>, \<open>acceptTandC\<close>), the job, the results list and the orders,
  the download, and then analysis and plotting.
\<close>

fun stage :: "event \<Rightarrow> nat option" where
  "stage (Init ds key dir) = Some 0"
| "stage GetAccessToken = Some 1"
| "stage AcceptTandC = Some 2"
| "stage (GetJobId q) = Some 3"
| "stage (GetResultsList p v) = Some 4"
| "stage GetOrderIds = Some 5"
| "stage (DownloadData ext fn) = Some 6"
| "stage (Analysis f) = Some 7"
| "stage ev = None"

definition stages :: "event list \<Rightarrow> nat list" where
  "stages tr = List.map_filter stage tr"

text \<open>The stages that a statement, a cell or a notebook added to the trace.\<close>

definition state_of :: "'s result \<Rightarrow> 's" where
  "state_of r = (case r of Done s \<Rightarrow> s | Raise e s \<Rightarrow> s)"



text \<open>The events of the results listing, the ordering and the download.\<close>

fun later_stage :: "event \<Rightarrow> bool" where
  "later_stage (GetResultsList p v) = True"
| "later_stage GetOrderIds = True"
| "later_stage (DownloadData ext fn) = True"
| "later_stage ev = False"

text \<open>The pages that a run asked \<open>get_results_list\<close> for.\<close>

fun page_of :: "event \<Rightarrow> int option" where
  "page_of (GetResultsList p v) = p"
| "page_of ev = None"

definition pages_requested :: "event list \<Rightarrow> int list" where
  "pages_requested tr = List.map_filter page_of tr"

section \<open>A sample run\<close>

text \<open>
  A helper module whose calls all return, with a results list of three items in pages of
  two, a world with the query file of the SLSTR dataset in place, one intact and one
  damaged archive, and the kernel before the first cell. The parser of the sample takes
  the empty object, the text of the query file, and rejects any other text; no file of
  the sample matches a pattern of the notebook, and the libraries return.
\<close>

definition sample_hapi :: "unit hapi" where
  "sample_hapi =
     \<lparr>hapi_init = (\<lambda>ds key dir. Inr \<lparr>results = None, filenames = None\<rparr>),
      hapi_get_access_token = Inr,
      hapi_acceptTandC = Inr,
      hapi_get_job_id = (\<lambda>d q. Inr d),
      hapi_get_results_list =
        (\<lambda>d p v. Inr (d\<lparr>results :=
           Some \<lparr>content = [\<lparr>filename = ''S3A.zip''\<rparr>, \<lparr>filename = ''S3B.zip''\<rparr>],
                 totItems = 3, itemsInPage = 2\<rparr>\<rparr>)),
      hapi_get_order_ids = Inr,
      hapi_download_data = (\<lambda>d ext fn. Inr d)\<rparr>"

definition sample_extractall ::
  "string \<Rightarrow> string \<Rightarrow> (string \<rightharpoonup> string) \<Rightarrow> exn option \<times> (string \<rightharpoonup> string)"
where
  "sample_extractall f d fs =
     (case fs f of
        None \<Rightarrow> (Some (FileNotFoundError f), fs)
      | Some c \<Rightarrow>
          if prefix ''PK'' c then (None, fs(path_join d ''sst.nc'' \<mapsto> drop 2 c))
          else (Some (Raised ''BadZipFile''), fs))"

definition sample_world :: world where
  "sample_world =
     \<lparr>cwd = ''/home/jovyan'',
      json_loads = (\<lambda>src. if src = ''{}'' then Inr src else Inl (Raised ''JSONDecodeError'')),
      extractall = sample_extractall,
      glob = (\<lambda>pattern fs. []),
      library = (\<lambda>f args. None)\<rparr>"

definition sample_files :: "string \<rightharpoonup> string" where
  "sample_files =
     [query_file_of sample_world ''EO:EUM:DAT:SENTINEL-3:SL_2_WST___'' \<mapsto> ''{}'',
      ''/home/jovyan/products/S3A.zip'' \<mapsto> ''PKsst'',
      ''/home/jovyan/products/S3B.zip'' \<mapsto> ''damaged'']"

definition sample_kernel :: "unit kernel" where
  "sample_kernel =
     \<lparr>download_data = True, api_key = ''a2V5'', dataset_id = [], JSON_query_file = [],
      query = [], HAPI_dict = None, total_results = 0, found_results = 0, page_count = 0,
      SLSTR_files = None, SST_file_list = None, files = sample_files, trace = []\<rparr>"

text \<open>
  An archive that holds a member of its own name: \<open>extractall\<close> into the directory of
  the archive opens the member's path for writing, which cuts the archive short while
  it is being read, and raises. What is left of the archive is the part written so far,
  here its first two characters.
\<close>

definition self_extractall ::
  "string \<Rightarrow> string \<Rightarrow> (string \<rightharpoonup> string) \<Rightarrow> exn option \<times> (string \<rightharpoonup> string)"
where
  "self_extractall f d fs =
     (case fs f of
        None \<Rightarrow> (Some (FileNotFoundError f), fs)
      | Some c \<Rightarrow> (Some (Raised ''EOFError''), fs(f \<mapsto> take 2 c)))"

definition self_world :: world where
  "self_world = sample_world\<lparr>extractall := self_extractall\<rparr>"

text \<open>
  The archive events of a trace are in order when every \<open>extractall\<close> is of a file with
  the extension \<open>.zip\<close> into its own directory, and every \<open>os.remove\<close> comes straight after
  the \<open>extractall\<close> of the same file. The first argument is the file whose \<open>extractall\<close>
  was the event before, if it was one.
\<close>

fun removes_follow :: "string option \<Rightarrow> event list \<Rightarrow> bool" where
  "removes_follow prev [] = True"
| "removes_follow prev (ev # evs) =
     (case ev of
        ExtractAll f d \<Rightarrow> splitext_ext f = ''.zip'' \<and> d = dirname f \<and> removes_follow (Some f) evs
      | Remove g \<Rightarrow> prev = Some g \<and> removes_follow None evs
      | _ \<Rightarrow> removes_follow None evs)"

section \<open>The output recorded in the how-to notebook\<close>

text \<open>
  The how-to notebook keeps the output of its last run: what \<open>get_job_id\<close>,
  \<open>get_results_list\<close>, \<open>get_order_ids\<close> and \<open>download_data\<close> printed.
\<close>

definition recorded_get_job_id :: "string list" where
  "recorded_get_job_id =
     [''Query successfully submitted. Job ID is _AIq3_hSl985LlGXkmNbBe0BIKI'',
      ''Next check in 5 seconds'',
      ''Query successfully submitted. Status is running'',
      ''Next check in 10 seconds'',
      ''Query successfully submitted. Status is completed'']"

definition recorded_file :: string where
  "recorded_file =
     ''&service=GLOBAL_ANALYSIS_FORECAST_WAV_001_027-TDS''
     @ ''&product=global-analysis-forecast-wav-001-027''
     @ ''&t_lo=2021-12-01T00:00:00.000Z&t_hi=2021-12-06T00:00:00.000Z''
     @ ''&x_lo=-9.748386572526352&y_hi=42.52096810045425''
     @ ''&x_hi=-0.5582870716788746&y_lo=44.45042413221037&variable=VHM0_SW1''"

definition recorded_get_results_list :: "string list" where
  "recorded_get_results_list = [recorded_file]"

definition recorded_get_order_ids :: "string list" where
  "recorded_get_order_ids =
     [''Query successfully submitted. Order ID is rNwI5K4U0mtVS3jWiHnoaaNuPAc'',
      ''Next check in 5 seconds'',
      ''Query successfully submitted. Status is completed'']"

definition recorded_download_data :: "string list" where
  "recorded_download_data =
     [''Downloading /home/javitausia/Documentos/AIFEM/wekeo-jupyter-lab/wekeo-hda/data/waves_spain_forecast.nc'',
      ''File size is:     0.21 MB'',
      ''[==================================================]     16.82 Mbps[    0.21] MB downloaded, 15885.94 kbps'',
      ''Download complete...'',
      ''Time Elapsed: 0.013772182999999938 seconds'']"

text \<open>What a line of \<open>download_data\<close> reports.\<close>

datatype line_kind = TargetPath | FileSize | Progress | Complete | Elapsed

definition line_kind :: "string \<Rightarrow> line_kind option" where
  "line_kind line =
     (if prefix ''Downloading '' line then Some TargetPath
      else if prefix ''File size is: '' line then Some FileSize
      else if prefix ''['' line \<and> py_in ''bps'' line then Some Progress
      else if line = ''Download complete...'' then Some Complete
      else if prefix ''Time Elapsed: '' line then Some Elapsed
      else None)"

text \<open>
  The report of one download: the target path, the file size, the progress with the
  transfer rate, the completion message and the elapsed time.
\<close>

definition download_report :: "line_kind option list" where
  "download_report = [Some TargetPath, Some FileSize, Some Progress, Some Complete, Some Elapsed]"

section \<open>The helper module, modelled from the specification\<close>

text \<open>
  The functions \<open>get_job_id\<close>, \<open>get_results_list\<close>, \<open>get_order_ids\<close> and \<open>download_data\<close>
  belong to \<open>hda_api_functions\<close>, which is not among the sources. The specification says
  what they do: POST a query, poll a status endpoint, GET a results list, GET order IDs
  and stream a file download with a progress printout; the job ID is what the API
  returns for the request, and an order ID is assigned to each file of a completed job
  and needed to trigger its download. The lines they print are the lines recorded in the
  how-to notebook.
\<close>

text \<open>
  Modelled from the spec: the requests that the helpers of \<open>hda_api_functions\<close> send to
  the HDA API, and what a helper does, in order: the requests, the sleeps, the printed
  lines and the files written.
\<close>

datatype request =
    PostDataRequest string
  | GetJobStatus string
  | GetResult string "int option"
  | PostDataOrder string string
  | GetOrderStatus string
  | GetDownload string

datatype effect = Request request | Sleep nat | Printed string | Wrote string

text \<open>
  Modelled from the spec: what \<open>download_data\<close> of \<open>hda_api_functions\<close> measures. The size,
  the rates and the elapsed time of a download are floating-point numbers read off the
  transfer and the clock; the model takes them as the text that is printed.
\<close>

record measurement =
  size_MB :: string
  rate_Mbps :: string
  rate_kbps :: string
  seconds :: string

text \<open>
  Modelled from the spec: the HDA API that \<open>hda_api_functions\<close> talks to, as a table of
  its answers: the job ID of a request, the status of a job at each check, a page of
  results, the order ID of a file of a job, the status of an order at each check, and
  the measurements of the download of an order.
\<close>

record hda_service =
  post_datarequest :: "string \<Rightarrow> string"
  job_status :: "string \<Rightarrow> nat \<Rightarrow> string"
  get_result :: "string \<Rightarrow> int option \<Rightarrow> results"
  post_dataorder :: "string \<Rightarrow> string \<Rightarrow> string"
  order_status :: "string \<Rightarrow> nat \<Rightarrow> string"
  measured :: "string \<Rightarrow> measurement"

text \<open>
  Modelled from the spec: the keys that the helpers of \<open>hda_api_functions\<close> keep in the
  dictionary besides the ones the notebooks read.
\<close>

record hda_session = hda_dict +
  download_dir :: string
  job_id :: "string option"
  order_ids :: "string list option"

text \<open>The lines printed, the requests sent and the files written, in order.\<close>

definition printed :: "effect list \<Rightarrow> string list" where
  "printed effs = List.map_filter (\<lambda>e. case e of Printed l \<Rightarrow> Some l | _ \<Rightarrow> None) effs"

definition requests :: "effect list \<Rightarrow> request list" where
  "requests effs = List.map_filter (\<lambda>e. case e of Request r \<Rightarrow> Some r | _ \<Rightarrow> None) effs"

definition written :: "effect list \<Rightarrow> string list" where
  "written effs = List.map_filter (\<lambda>e. case e of Wrote p \<Rightarrow> Some p | _ \<Rightarrow> None) effs"

text \<open>
  Modelled from the spec: one status check of \<open>get_job_id\<close> and \<open>get_order_ids\<close> of
  \<open>hda_api_functions\<close>. The wait is announced and slept, and then the status is asked
  for and printed. The spec gives a fixed interval; the recorded run announces 5 and
  then 10 seconds, so the wait before the check number \<open>k\<close> is a parameter.
\<close>

definition status_check :: "(nat \<Rightarrow> nat) \<Rightarrow> request \<Rightarrow> (nat \<Rightarrow> string) \<Rightarrow> nat \<Rightarrow> effect list" where
  "status_check wait rq status k =
     [Printed (''Next check in '' @ str_nat (wait k) @ '' seconds''),
      Sleep (wait k),
      Request rq,
      Printed (''Query successfully submitted. Status is '' @ status k)]"

text \<open>
  Modelled from the spec: the polling loop of \<open>get_job_id\<close> and \<open>get_order_ids\<close> of
  \<open>hda_api_functions\<close>. It ends at the first status \<open>completed\<close> and does not return
  while there is none.
\<close>

partial_function (option) poll ::
  "(nat \<Rightarrow> nat) \<Rightarrow> request \<Rightarrow> (nat \<Rightarrow> string) \<Rightarrow> nat \<Rightarrow> effect list option"
where
  "poll wait rq status k =
     (if status k = ''completed'' then Some (status_check wait rq status k)
      else Option.bind (poll wait rq status (Suc k))
             (\<lambda>rest. Some (status_check wait rq status k @ rest)))"

text \<open>
  Modelled from the spec: \<open>get_job_id\<close> of \<open>hda_api_functions\<close> posts the query, keeps the
  job ID that the API returns and polls the status of the job.
\<close>

definition get_job_id ::
  "hda_service \<Rightarrow> (nat \<Rightarrow> nat) \<Rightarrow> hda_session \<Rightarrow> string \<Rightarrow> (hda_session \<times> effect list) option"
where
  "get_job_id svc wait d q =
     (let jid = post_datarequest svc q
      in Option.bind (poll wait (GetJobStatus jid) (job_status svc jid) 0)
           (\<lambda>effs. Some (d\<lparr>job_id := Some jid\<rparr>,
              [Request (PostDataRequest q),
               Printed (''Query successfully submitted. Job ID is '' @ jid)] @ effs)))"

text \<open>
  Modelled from the spec: \<open>get_results_list\<close> of \<open>hda_api_functions\<close>, called as the
  how-to notebooks call it, gets a page of the results of the job whose ID is in the
  dictionary and prints the name of each file of the page.
\<close>

definition get_results_list ::
  "hda_service \<Rightarrow> hda_session \<Rightarrow> int option \<Rightarrow> exn + hda_session \<times> effect list"
where
  "get_results_list svc d page =
     (case job_id d of
        None \<Rightarrow> Inl (KeyError ''job_id'')
      | Some jid \<Rightarrow>
          (let r = get_result svc jid page
           in Inr (d\<lparr>results := Some r\<rparr>,
                   Request (GetResult jid page) # map (\<lambda>f. Printed (filename f)) (content r))))"

text \<open>
  Modelled from the spec: the loop of \<open>get_order_ids\<close> of \<open>hda_api_functions\<close> over the
  files of the results list: it orders the file, prints the order ID and polls the
  status of the order.
\<close>

fun order_files ::
  "hda_service \<Rightarrow> (nat \<Rightarrow> nat) \<Rightarrow> string \<Rightarrow> result_file list \<Rightarrow> (string list \<times> effect list) option"
where
  "order_files svc wait jid [] = Some ([], [])"
| "order_files svc wait jid (f # fs) =
     (let oid = post_dataorder svc jid (filename f)
      in case poll wait (GetOrderStatus oid) (order_status svc oid) 0 of
           None \<Rightarrow> None
         | Some effs \<Rightarrow>
             (case order_files svc wait jid fs of
                None \<Rightarrow> None
              | Some (oids, rest) \<Rightarrow>
                  Some (oid # oids,
                    [Request (PostDataOrder jid (filename f)),
                     Printed (''Query successfully submitted. Order ID is '' @ oid)]
                    @ effs @ rest)))"

text \<open>
  Modelled from the spec: \<open>get_order_ids\<close> of \<open>hda_api_functions\<close> orders each file of the
  results list of the job and keeps the order IDs.
\<close>

definition get_order_ids ::
  "hda_service \<Rightarrow> (nat \<Rightarrow> nat) \<Rightarrow> hda_session \<Rightarrow> (exn + hda_session \<times> effect list) option"
where
  "get_order_ids svc wait d =
     (case job_id d of
        None \<Rightarrow> Some (Inl (KeyError ''job_id''))
      | Some jid \<Rightarrow>
          (case results d of
             None \<Rightarrow> Some (Inl (KeyError ''results''))
           | Some r \<Rightarrow>
               (case order_files svc wait jid (content r) of
                  None \<Rightarrow> None
                | Some (oids, effs) \<Rightarrow> Some (Inr (d\<lparr>order_ids := Some oids\<rparr>, effs)))))"

text \<open>
  Modelled from the spec: the lines that \<open>download_data\<close> of \<open>hda_api_functions\<close> prints
  for one file, with the progress bar as it stands when the file is complete.
\<close>

definition download_lines :: "string \<Rightarrow> measurement \<Rightarrow> string list" where
  "download_lines path m =
     [''Downloading '' @ path,
      ''File size is: '' @ size_MB m @ '' MB'',
      ''['' @ replicate 50 CHR ''='' @ '']'' @ rate_Mbps m @ '' Mbps['' @ size_MB m
        @ ''] MB downloaded, '' @ rate_kbps m @ '' kbps'',
      ''Download complete...'',
      ''Time Elapsed: '' @ seconds m @ '' seconds'']"

text \<open>
  Modelled from the spec: the name under which \<open>download_data\<close> of \<open>hda_api_functions\<close>
  writes a file: \<open>user_filename\<close> when it is given, else the file's name with
  \<open>file_extension\<close>.
\<close>

definition file_name :: "string option \<Rightarrow> string option \<Rightarrow> result_file \<Rightarrow> string" where
  "file_name ext ufn f =
     (case ufn of
        Some u \<Rightarrow> u
      | None \<Rightarrow> filename f @ (case ext of Some e \<Rightarrow> e | None \<Rightarrow> []))"

text \<open>
  Modelled from the spec: where \<open>download_data\<close> of \<open>hda_api_functions\<close> writes a file: in
  the download directory, \<open>os.path.join(download_dir_path, name)\<close>.
\<close>

definition target_path :: "hda_session \<Rightarrow> string option \<Rightarrow> string option \<Rightarrow> result_file \<Rightarrow> string" where
  "target_path d ext ufn f = path_join (download_dir d) (file_name ext ufn f)"

text \<open>
  Modelled from the spec: the download of one file by \<open>download_data\<close> of
  \<open>hda_api_functions\<close>: the request with the order ID, the printed progress and the file
  written.
\<close>

definition download_one :: "hda_service \<Rightarrow> string \<Rightarrow> string \<Rightarrow> effect list" where
  "download_one svc oid path =
     Request (GetDownload oid) # map Printed (download_lines path (measured svc oid)) @ [Wrote path]"

text \<open>
  Modelled from the spec: \<open>download_data\<close> of \<open>hda_api_functions\<close> downloads the file of
  each order ID and keeps the paths under \<open>filenames\<close>.
\<close>

definition download_data_of ::
  "hda_service \<Rightarrow> hda_session \<Rightarrow> string option \<Rightarrow> string option \<Rightarrow> exn + hda_session \<times> effect list"
where
  "download_data_of svc d ext ufn =
     (case order_ids d of
        None \<Rightarrow> Inl (KeyError ''order_ids'')
      | Some oids \<Rightarrow>
          (case results d of
             None \<Rightarrow> Inl (KeyError ''results'')
           | Some r \<Rightarrow>
               (let targets = zip oids (map (target_path d ext ufn) (content r))
                in Inr (d\<lparr>filenames := Some (map snd targets)\<rparr>,
                        concat (map (\<lambda>t. download_one svc (fst t) (snd t)) targets)))))"

text \<open>The service, the waits and the dictionary of the recorded run.\<close>

definition recorded_service :: hda_service where
  "recorded_service =
     \<lparr>post_datarequest = (\<lambda>q. ''_AIq3_hSl985LlGXkmNbBe0BIKI''),
      job_status = (\<lambda>jid k. if k = 0 then ''running'' else ''completed''),
      get_result = (\<lambda>jid page.
        \<lparr>content = [\<lparr>filename = recorded_file\<rparr>], totItems = 1, itemsInPage = 1\<rparr>),
      post_dataorder = (\<lambda>jid f. ''rNwI5K4U0mtVS3jWiHnoaaNuPAc''),
      order_status = (\<lambda>oid k. ''completed''),
      measured = (\<lambda>oid. \<lparr>size_MB = ''    0.21'', rate_Mbps = ''     16.82'',
                          rate_kbps = ''15885.94'', seconds = ''0.013772182999999938''\<rparr>)\<rparr>"

definition recorded_wait :: "nat \<Rightarrow> nat" where
  "recorded_wait k = (if k = 0 then 5 else 10)"

definition recorded_session :: hda_session where
  "recorded_session =
     \<lparr>results = None, filenames = None,
      download_dir = ''/home/javitausia/Documentos/AIFEM/wekeo-jupyter-lab/wekeo-hda/data/'',
      job_id = None, order_ids = None\<rparr>"

text \<open>
  The dictionary of the recorded run after each of its cells; the cell before the
  download renames the file to \<open>waves_spain_forecast\<close>.
\<close>

definition after_job :: hda_session where
  "after_job = recorded_session\<lparr>job_id := Some ''_AIq3_hSl985LlGXkmNbBe0BIKI''\<rparr>"

definition after_results :: hda_session where
  "after_results =
     after_job\<lparr>results :=
       Some \<lparr>content = [\<lparr>filename = recorded_file\<rparr>], totItems = 1, itemsInPage = 1\<rparr>\<rparr>"

definition after_orders :: hda_session where
  "after_orders = after_results\<lparr>order_ids := Some [''rNwI5K4U0mtVS3jWiHnoaaNuPAc'']\<rparr>"

definition after_rename :: hda_session where
  "after_rename =
     after_orders\<lparr>results :=
       Some \<lparr>content = [\<lparr>filename = ''waves_spain_forecast''\<rparr>],
             totItems = 1, itemsInPage = 1\<rparr>\<rparr>"

text \<open>A request that names a job names this one.\<close>

definition for_job :: "string \<Rightarrow> request \<Rightarrow> bool" where
  "for_job jid rq =
     (case rq of
        GetJobStatus j \<Rightarrow> j = jid
      | GetResult j page \<Rightarrow> j = jid
      | PostDataOrder j f \<Rightarrow> j = jid
      | _ \<Rightarrow> True)"

text \<open>The job and the file of each order that a run places.\<close>

definition orders :: "effect list \<Rightarrow> (string \<times> string) list" where
  "orders effs =
     List.map_filter (\<lambda>rq. case rq of PostDataOrder j f \<Rightarrow> Some (j, f) | _ \<Rightarrow> None) (requests effs)"

text \<open>The order IDs that the download requests of a run name.\<close>

definition downloads :: "effect list \<Rightarrow> string list" where
  "downloads effs =
     List.map_filter (\<lambda>rq. case rq of GetDownload oid \<Rightarrow> Some oid | _ \<Rightarrow> None) (requests effs)"

section \<open>Properties of the notebooks\<close>

subsection \<open>Statements, traces and stages\<close>


lemmas sample_defs = sample_hapi_def sample_world_def sample_kernel_def

lemma map_filter_append:
  "List.map_filter f (xs @ ys) = List.map_filter f xs @ List.map_filter f ys"
  by (simp add: List.map_filter_def)

lemma stages_append: "stages (xs @ ys) = stages xs @ stages ys"
  by (simp add: stages_def map_filter_append)

lemma query_files:
  "query_file_of sample_world ''EO:EUM:DAT:SENTINEL-3:SL_2_WST___''
     = ''/home/jovyan/JSON_templates/mhw/EO_EUM_DAT_SENTINEL-3_SL_2_WST___.json''"
  by (simp add: query_file_of_def JSON_query_dir_def sample_world_def path_join_def
        py_replace_def)

lemma sample_files_lookup:
  "sample_files (query_file_of sample_world ''EO:EUM:DAT:SENTINEL-3:SL_2_WST___'') = Some ''{}''"
  "sample_files ''/home/jovyan/products/S3A.zip'' = Some ''PKsst''"
  unfolding sample_files_def query_files by simp_all

subsection \<open>The SLSTR download cell stops at the unbound name\<close>

text \<open>
  C4: With \<open>download_data\<close> set, the SLSTR download cell of the marine-heatwaves
  notebook always ends in an exception and never reaches the results listing, the
  ordering or the download. When the session is built, the query is loaded and
  \<open>get_job_id\<close> returns, the exception is the \<open>NameError\<close> of \<open>asdf\<close>, raised after
  \<open>get_job_id\<close> and the print of the dictionary and before the loop over the pages.
\<close>

theorem slstr_cell_stops_at_asdf:
  assumes "download_data s"
  shows "(\<exists>e s' new. slstr_download_cell h w s = Some (Raise e s') \<and> trace s' = trace s @ new
            \<and> \<not> list_ex later_stage new)
    \<and> (hapi_init h (dataset_id s) (api_key s) (download_dir_path w) = Inr da
        \<and> hapi_get_access_token h da = Inr db
        \<and> hapi_acceptTandC h db = Inr dc
        \<and> files s (JSON_query_file s) = Some src
        \<and> json_loads w src = Inr q
        \<and> hapi_get_job_id h dc q = Inr dd \<longrightarrow>
        slstr_download_cell h w s =
          Some (Raise (NameError ''asdf'')
            (s\<lparr>total_results := 1000000, query := q, HAPI_dict := Some dd,
                found_results := 0, page_count := - 1,
                trace := trace s @ [Init (dataset_id s) (api_key s) (download_dir_path w),
                   GetAccessToken, AcceptTandC, Print ''Launching job...'', GetJobId q,
                   Print ''Getting results...'', Print ''------------------'', PrintDict]\<rparr>)))"
proof -
  have "\<exists>e s' new. slstr_download_cell h w s = Some (Raise e s') \<and> trace s' = trace s @ new
            \<and> \<not> list_ex later_stage new"
    using assms unfolding slstr_download_cell_def
    by (auto simp: assign_def call_init_def call_hapi_def emit_def say_def load_query_def
          read_text_def call_get_job_id_def Let_def split: sum.splits option.splits)
  moreover have "hapi_init h (dataset_id s) (api_key s) (download_dir_path w) = Inr da
        \<and> hapi_get_access_token h da = Inr db
        \<and> hapi_acceptTandC h db = Inr dc
        \<and> files s (JSON_query_file s) = Some src
        \<and> json_loads w src = Inr q
        \<and> hapi_get_job_id h dc q = Inr dd \<longrightarrow>
        slstr_download_cell h w s =
          Some (Raise (NameError ''asdf'')
            (s\<lparr>total_results := 1000000, query := q, HAPI_dict := Some dd,
                found_results := 0, page_count := - 1,
                trace := trace s @ [Init (dataset_id s) (api_key s) (download_dir_path w),
                   GetAccessToken, AcceptTandC, Print ''Launching job...'', GetJobId q,
                   Print ''Getting results...'', Print ''------------------'', PrintDict]\<rparr>))"
    using assms unfolding slstr_download_cell_def
    by (simp add: assign_def call_init_def call_hapi_def emit_def say_def load_query_def
          read_text_def call_get_job_id_def Let_def)
  ultimately show ?thesis by blast
qed

theorem slstr_cell_stops_at_asdf_witness:
  "slstr_download_cell sample_hapi sample_world
     (sample_kernel\<lparr>JSON_query_file :=
        query_file_of sample_world ''EO:EUM:DAT:SENTINEL-3:SL_2_WST___''\<rparr>)
   = Some (Raise (NameError ''asdf'')
       (sample_kernel\<lparr>JSON_query_file :=
            query_file_of sample_world ''EO:EUM:DAT:SENTINEL-3:SL_2_WST___'',
          total_results := 1000000, query := ''{}'',
          HAPI_dict := Some \<lparr>results = None, filenames = None\<rparr>,
          found_results := 0, page_count := - 1,
          trace := [Init [] ''a2V5'' ''/home/jovyan/products'',
             GetAccessToken, AcceptTandC, Print ''Launching job...'', GetJobId ''{}'',
             Print ''Getting results...'', Print ''------------------'', PrintDict]\<rparr>))"
  using slstr_cell_stops_at_asdf[where h = sample_hapi and w = sample_world
      and s = "sample_kernel\<lparr>JSON_query_file :=
        query_file_of sample_world ''EO:EUM:DAT:SENTINEL-3:SL_2_WST___''\<rparr>"
      and da = "\<lparr>results = None, filenames = None\<rparr>"
      and db = "\<lparr>results = None, filenames = None\<rparr>"
      and dc = "\<lparr>results = None, filenames = None\<rparr>"
      and dd = "\<lparr>results = None, filenames = None\<rparr>"
      and src = "''{}''" and q = "''{}''"]
    sample_files_lookup(1)
  by (simp add: sample_defs download_dir_path_def path_join_def)

subsection \<open>The loop over the result pages\<close>

lemma page_body_round:
  assumes pages: "\<forall>d k d'. hapi_get_results_list h d (Some (int k)) (Some verbose) = Inr d' \<longrightarrow>
            (\<exists>r. results d' = Some r \<and> totItems r = int T \<and> itemsInPage r = items k)"
    and bound: "HAPI_dict s \<noteq> None"
    and page: "page_count s + 1 = int k"
  shows "\<exists>r. run_steps (page_body h) s = Some r
           \<and> pages_requested (trace (state_of r)) = pages_requested (trace s) @ [int k]
           \<and> (case r of
                 Done s' \<Rightarrow> HAPI_dict s' \<noteq> None \<and> page_count s' = int k
                   \<and> total_results s' = int T \<and> found_results s' = found_results s + items k
               | Raise e s' \<Rightarrow>
                   (\<exists>d. hapi_get_results_list h d (Some (int k)) (Some verbose) = Inl e
                      \<or> hapi_get_order_ids h d = Inl e
                      \<or> hapi_download_data h d (Some ''.zip'') None = Inl e))"
proof -
  from bound obtain d where d: "HAPI_dict s = Some d" by auto
  have pr: "pages_requested (xs @ [GetResultsList (Some p) v]) = pages_requested xs @ [p]"
       "pages_requested (xs @ [Print m]) = pages_requested xs"
       "pages_requested (xs @ [PrintFound a b]) = pages_requested xs"
       "pages_requested (xs @ [GetOrderIds]) = pages_requested xs"
       "pages_requested (xs @ [DownloadData x y]) = pages_requested xs"
    for xs p v m a b x y
    by (simp_all add: pages_requested_def List.map_filter_def)
  show ?thesis
  proof (cases "hapi_get_results_list h d (Some (int k)) (Some verbose)")
    case (Inl e)
    then show ?thesis using d page
      by (auto simp: page_body_def assign_def call_hapi_def emit_def say_def state_of_def pages_requested_def List.map_filter_def)
  next
    case (Inr d1)
    with pages obtain r where r: "results d1 = Some r" "totItems r = int T" "itemsInPage r = items k"
      by blast
    show ?thesis
    proof (cases "hapi_get_order_ids h d1")
      case (Inl e)
      then show ?thesis using d page Inr r
        by (auto simp: page_body_def assign_def call_hapi_def emit_def say_def state_of_def pages_requested_def List.map_filter_def
              read_page_totals_def read_results_def)
    next
      case d2: (Inr d2)
      show ?thesis
      proof (cases "hapi_download_data h d2 (Some ''.zip'') None")
        case (Inl e)
        then show ?thesis using d page Inr r d2
          by (auto simp: page_body_def assign_def call_hapi_def emit_def say_def state_of_def pages_requested_def List.map_filter_def
              read_page_totals_def read_results_def)
      next
        case d3: (Inr d3)
        then show ?thesis using d page Inr r d2
          by (auto simp: page_body_def assign_def call_hapi_def emit_def say_def state_of_def pages_requested_def List.map_filter_def
              read_page_totals_def read_results_def)
      qed
    qed
  qed
qed

lemma page_loop_rounds:
  assumes pages: "\<forall>d k d'. hapi_get_results_list h d (Some (int k)) (Some verbose) = Inr d' \<longrightarrow>
            (\<exists>r. results d' = Some r \<and> totItems r = int T \<and> itemsInPage r = items k)"
    and pos: "\<forall>k. 1 \<le> items k"
  shows "HAPI_dict s \<noteq> None \<Longrightarrow> total_results s = int T \<Longrightarrow> page_count s + 1 = int k \<Longrightarrow>
         \<exists>r n. page_loop h s = Some r
           \<and> pages_requested (trace (state_of r)) = pages_requested (trace s) @ map int [k..<k + n]
           \<and> (\<forall>m<n. found_results s + sum items {k..<k + m} < int T)
           \<and> (case r of
                 Done s' \<Rightarrow> found_results s' = found_results s + sum items {k..<k + n}
                   \<and> int T \<le> found_results s' \<and> total_results s' = int T
                   \<and> page_count s' + 1 = int (k + n)
               | Raise e s' \<Rightarrow> 0 < n \<and>
                   (\<exists>d. hapi_get_results_list h d (Some (int (k + n - 1))) (Some verbose) = Inl e
                      \<or> hapi_get_order_ids h d = Inl e
                      \<or> hapi_download_data h d (Some ''.zip'') None = Inl e))"
proof (induction "nat (int T - found_results s)" arbitrary: s k rule: less_induct)
  case less
  show ?case
  proof (cases "found_results s < total_results s")
    case False
    then have "page_loop h s = Some (Done s)"
      by (subst page_loop.simps) simp
    moreover have "int T \<le> found_results s" using False less.prems by simp
    ultimately show ?thesis using less.prems(2,3)
      by (intro exI[of _ "Done s"] exI[of _ 0]) (simp add: state_of_def)
  next
    case True
    from page_body_round[OF pages less.prems(1) less.prems(3)]
    obtain r1 where r1: "run_steps (page_body h) s = Some r1"
      "pages_requested (trace (state_of r1)) = pages_requested (trace s) @ [int k]"
      "(case r1 of
                 Done s' \<Rightarrow> HAPI_dict s' \<noteq> None \<and> page_count s' = int k
                   \<and> total_results s' = int T \<and> found_results s' = found_results s + items k
               | Raise e s' \<Rightarrow>
                   (\<exists>d. hapi_get_results_list h d (Some (int k)) (Some verbose) = Inl e
                      \<or> hapi_get_order_ids h d = Inl e
                      \<or> hapi_download_data h d (Some ''.zip'') None = Inl e))"
      by blast
    show ?thesis
    proof (cases r1)
      case (Raise e s1)
      have "page_loop h s = Some (Raise e s1)"
        using True r1(1) Raise by (subst page_loop.simps) simp
      moreover have "\<forall>m<Suc 0. found_results s + sum items {k..<k + m} < int T"
        using True less.prems(2) by simp
      ultimately show ?thesis using r1(2,3) Raise
        by (intro exI[of _ "Raise e s1"] exI[of _ "Suc 0"]) (simp add: state_of_def)
    next
      case (Done s1)
      with r1 have s1: "HAPI_dict s1 \<noteq> None" "page_count s1 = int k" "total_results s1 = int T"
        "found_results s1 = found_results s + items k"
        "pages_requested (trace s1) = pages_requested (trace s) @ [int k]"
        by (simp_all add: state_of_def)
      have smaller: "nat (int T - found_results s1) < nat (int T - found_results s)"
        using True less.prems(2) s1(4) pos[rule_format, of k] by simp
      have next_page: "page_count s1 + 1 = int (Suc k)" using s1(2) by simp
      from less.hyps[OF smaller s1(1) s1(3) next_page]
      obtain r n where r: "page_loop h s1 = Some r"
        "pages_requested (trace (state_of r)) = pages_requested (trace s1) @ map int [Suc k..<Suc k + n]"
        "\<forall>m<n. found_results s1 + sum items {Suc k..<Suc k + m} < int T"
        "(case r of
                 Done s' \<Rightarrow> found_results s' = found_results s1 + sum items {Suc k..<Suc k + n}
                   \<and> int T \<le> found_results s' \<and> total_results s' = int T
                   \<and> page_count s' + 1 = int (Suc k + n)
               | Raise e s' \<Rightarrow> 0 < n \<and>
                   (\<exists>d. hapi_get_results_list h d (Some (int (Suc k + n - 1))) (Some verbose) = Inl e
                      \<or> hapi_get_order_ids h d = Inl e
                      \<or> hapi_download_data h d (Some ''.zip'') None = Inl e))"
        by blast
      have run: "page_loop h s = Some r"
        using True r1(1) Done r(1) by (subst page_loop.simps) simp
      have split: "sum items {k..<k + Suc m} = items k + sum items {Suc k..<Suc k + m}" for m
        by (simp add: sum.atLeast_Suc_lessThan)
      have upt: "[k..<k + Suc n] = k # [Suc k..<Suc k + n]"
        by (simp add: upt_conv_Cons del: upt_Suc)
      have pages': "pages_requested (trace (state_of r))
                     = pages_requested (trace s) @ map int [k..<k + Suc n]"
        unfolding r(2) s1(5) upt by simp
      have before: "\<forall>m<Suc n. found_results s + sum items {k..<k + m} < int T"
      proof (intro allI impI)
        fix m assume m: "m < Suc n"
        show "found_results s + sum items {k..<k + m} < int T"
        proof (cases m)
          case 0
          then show ?thesis using True less.prems(2) by simp
        next
          case (Suc m')
          then have "m' < n" using m by simp
          with r(3) have "found_results s1 + sum items {Suc k..<Suc k + m'} < int T" by blast
          then show ?thesis unfolding Suc split s1(4) by simp
        qed
      qed
      have final: "(case r of
                 Done s' \<Rightarrow> found_results s' = found_results s + sum items {k..<k + Suc n}
                   \<and> int T \<le> found_results s' \<and> total_results s' = int T
                   \<and> page_count s' + 1 = int (k + Suc n)
               | Raise e s' \<Rightarrow> 0 < Suc n \<and>
                   (\<exists>d. hapi_get_results_list h d (Some (int (k + Suc n - 1))) (Some verbose) = Inl e
                      \<or> hapi_get_order_ids h d = Inl e
                      \<or> hapi_download_data h d (Some ''.zip'') None = Inl e))"
      proof (cases r)
        case (Done s')
        then show ?thesis using r(4) unfolding split s1(4) by simp
      next
        case (Raise e s')
        with r(4) have "0 < n" by simp
        then have "Suc k + n - 1 = k + Suc n - 1" by simp
        then show ?thesis using r(4) Raise by simp
      qed
      show ?thesis using run pages' before final by blast
    qed
  qed
qed

text \<open>
  C3: The loop over the result pages ends. Let every page \<open>k\<close> that \<open>get_results_list\<close>
  returns report the same total \<open>T\<close> and \<open>items k\<close> items, at least one. Started as the
  cell starts it (\<open>total_results = 1e6\<close>, \<open>found_results = 0\<close>, \<open>page_count = -1\<close>), the
  loop returns after \<open>n > 0\<close> rounds, having asked for the pages 0, 1, ..., n - 1 in this
  order and for no other. Before each round but the first the items found so far,
  \<open>items 0 + ... + items (m - 1)\<close>, were fewer than \<open>T\<close>. Either the loop ends normally, and
  then \<open>found_results\<close> is the sum of the items of the \<open>n\<close> pages and is at least \<open>T\<close>, so
  \<open>n\<close> is the first number of pages that holds \<open>T\<close> items; or it ends in round \<open>n\<close> with the
  exception that \<open>get_results_list\<close>, \<open>get_order_ids\<close> or \<open>download_data\<close> raised there.
\<close>

theorem page_loop_terminates:
  assumes pages: "\<forall>d k d'. hapi_get_results_list h d (Some (int k)) (Some verbose) = Inr d' \<longrightarrow>
            (\<exists>r. results d' = Some r \<and> totItems r = int T \<and> itemsInPage r = items k)"
    and pos: "\<forall>k. 1 \<le> items k"
    and bound: "HAPI_dict s \<noteq> None"
    and start: "total_results s = 1000000" "found_results s = 0" "page_count s = - 1"
  shows "\<exists>r n. page_loop h s = Some r \<and> 0 < n
           \<and> pages_requested (trace (state_of r)) = pages_requested (trace s) @ map int [0..<n]
           \<and> (\<forall>m. 0 < m \<and> m < n \<longrightarrow> sum items {..<m} < int T)
           \<and> (case r of
                 Done s' \<Rightarrow> found_results s' = sum items {..<n} \<and> int T \<le> found_results s'
                   \<and> total_results s' = int T \<and> page_count s' = int n - 1
               | Raise e s' \<Rightarrow>
                   (\<exists>d. hapi_get_results_list h d (Some (int n - 1)) (Some verbose) = Inl e
                      \<or> hapi_get_order_ids h d = Inl e
                      \<or> hapi_download_data h d (Some ''.zip'') None = Inl e))"
proof -
  have first: "found_results s < total_results s" using start by simp
  have page0: "page_count s + 1 = int 0" using start by simp
  from page_body_round[OF pages bound page0]
  obtain r1 where r1: "run_steps (page_body h) s = Some r1"
    "pages_requested (trace (state_of r1)) = pages_requested (trace s) @ [int 0]"
    "(case r1 of
         Done s' \<Rightarrow> HAPI_dict s' \<noteq> None \<and> page_count s' = int 0
           \<and> total_results s' = int T \<and> found_results s' = found_results s + items 0
       | Raise e s' \<Rightarrow>
           (\<exists>d. hapi_get_results_list h d (Some (int 0)) (Some verbose) = Inl e
              \<or> hapi_get_order_ids h d = Inl e
              \<or> hapi_download_data h d (Some ''.zip'') None = Inl e))"
    by blast
  show ?thesis
  proof (cases r1)
    case (Raise e s1)
    have "page_loop h s = Some (Raise e s1)"
      using first r1(1) Raise by (subst page_loop.simps) simp
    then show ?thesis using r1(2,3) Raise
      by (intro exI[of _ "Raise e s1"] exI[of _ "Suc 0"]) (simp add: state_of_def)
  next
    case (Done s1)
    with r1 have s1: "HAPI_dict s1 \<noteq> None" "page_count s1 = 0" "total_results s1 = int T"
      "found_results s1 = items 0"
      "pages_requested (trace s1) = pages_requested (trace s) @ [0]"
      using start(2) by (simp_all add: state_of_def)
    have next_page: "page_count s1 + 1 = int 1" using s1(2) by simp
    from page_loop_rounds[OF pages pos s1(1) s1(3) next_page]
    obtain r n where r: "page_loop h s1 = Some r"
      "pages_requested (trace (state_of r)) = pages_requested (trace s1) @ map int [1..<1 + n]"
      "\<forall>m<n. found_results s1 + sum items {1..<1 + m} < int T"
      "(case r of
           Done s' \<Rightarrow> found_results s' = found_results s1 + sum items {1..<1 + n}
             \<and> int T \<le> found_results s' \<and> total_results s' = int T
             \<and> page_count s' + 1 = int (1 + n)
         | Raise e s' \<Rightarrow> 0 < n \<and>
             (\<exists>d. hapi_get_results_list h d (Some (int (1 + n - 1))) (Some verbose) = Inl e
                \<or> hapi_get_order_ids h d = Inl e
                \<or> hapi_download_data h d (Some ''.zip'') None = Inl e))"
      by blast
    have run: "page_loop h s = Some r"
      using first r1(1) Done r(1) by (subst page_loop.simps) simp
    have split: "sum items {..<Suc m} = items 0 + sum items {1..<1 + m}" for m
      by (simp add: lessThan_atLeast0 sum.atLeast_Suc_lessThan del: sum.lessThan_Suc)
    have upt: "[0..<Suc n] = 0 # [1..<1 + n]"
      by (simp add: upt_conv_Cons del: upt_Suc)
    have pages': "pages_requested (trace (state_of r))
                   = pages_requested (trace s) @ map int [0..<Suc n]"
      unfolding r(2) s1(5) upt by simp
    have before: "\<forall>m. 0 < m \<and> m < Suc n \<longrightarrow> sum items {..<m} < int T"
    proof (intro allI impI)
      fix m assume m: "0 < m \<and> m < Suc n"
      then obtain m' where m': "m = Suc m'" "m' < n" by (cases m) auto
      with r(3) have "found_results s1 + sum items {1..<1 + m'} < int T" by blast
      then show "sum items {..<m} < int T" unfolding m'(1) split s1(4) by simp
    qed
    have final: "(case r of
           Done s' \<Rightarrow> found_results s' = sum items {..<Suc n} \<and> int T \<le> found_results s'
             \<and> total_results s' = int T \<and> page_count s' = int (Suc n) - 1
         | Raise e s' \<Rightarrow>
             (\<exists>d. hapi_get_results_list h d (Some (int (Suc n) - 1)) (Some verbose) = Inl e
                \<or> hapi_get_order_ids h d = Inl e
                \<or> hapi_download_data h d (Some ''.zip'') None = Inl e))"
    proof (cases r)
      case (Done s')
      then show ?thesis using r(4) unfolding split s1(4) by simp
    next
      case (Raise e s')
      then show ?thesis using r(4) by simp
    qed
    show ?thesis using run pages' before final by (intro exI[of _ r] exI[of _ "Suc n"]) simp
  qed
qed

theorem page_loop_terminates_witness:
  "\<exists>s'. page_loop sample_hapi
       (sample_kernel\<lparr>HAPI_dict := Some \<lparr>results = None, filenames = None\<rparr>,
          total_results := 1000000, found_results := 0, page_count := - 1\<rparr>) = Some (Done s')
     \<and> found_results s' = 4 \<and> total_results s' = 3 \<and> page_count s' = 1
     \<and> pages_requested (trace s') = [0, 1]"
proof -
  let ?s = "sample_kernel\<lparr>HAPI_dict := Some \<lparr>results = None, filenames = None\<rparr>,
          total_results := 1000000, found_results := 0, page_count := - 1\<rparr>"
  have pages: "\<forall>d k d'. hapi_get_results_list sample_hapi d (Some (int k)) (Some verbose) = Inr d'
      \<longrightarrow> (\<exists>r. results d' = Some r \<and> totItems r = int 3 \<and> itemsInPage r = 2)"
    by (auto simp: sample_hapi_def)
  have start: "HAPI_dict ?s \<noteq> None" "total_results ?s = 1000000" "found_results ?s = 0"
    "page_count ?s = - 1" "pages_requested (trace ?s) = []"
    by (simp_all add: sample_kernel_def pages_requested_def List.map_filter_def)
  from page_loop_terminates[where h = sample_hapi and T = 3 and items = "\<lambda>k. 2" and s = ?s,
      OF pages _ start(1,2,3,4)]
  obtain r n where run: "page_loop sample_hapi ?s = Some r"
    and pages: "pages_requested (trace (state_of r)) = map int [0..<n]"
    and least: "\<forall>m. 0 < m \<and> m < n \<longrightarrow> (\<Sum>k<m. 2) < int 3"
    and final: "case r of
        Done s' \<Rightarrow> found_results s' = (\<Sum>k<n. 2) \<and> int 3 \<le> found_results s'
          \<and> total_results s' = int 3 \<and> page_count s' = int n - 1
      | Raise e s' \<Rightarrow>
          (\<exists>d. hapi_get_results_list sample_hapi d (Some (int n - 1)) (Some verbose) = Inl e
             \<or> hapi_get_order_ids sample_hapi d = Inl e
             \<or> hapi_download_data sample_hapi d (Some ''.zip'') None = Inl e)"
    unfolding start(5) by auto
  from final obtain s' where s': "r = Done s'" "found_results s' = 2 * int n"
    "3 \<le> found_results s'" "total_results s' = 3" "page_count s' = int n - 1"
    by (cases r) (auto simp: sample_hapi_def)
  have "\<not> 2 < n" using least[rule_format, of 2] by auto
  moreover have "2 \<le> n" using s'(2,3) by simp
  ultimately have "n = 2" by simp
  then have "[0..<n] = [0, 1]" by (simp add: upt_rec)
  with run pages s' \<open>n = 2\<close> show ?thesis by (simp add: state_of_def)
qed

subsection \<open>The order of the workflow\<close>

















lemmas unzip_defs = unzip_one_def try_except_def zip_extractall_def os_remove_def say_def
  emit_def Let_def

lemma removes_follow_Some: "removes_follow None evs \<Longrightarrow> removes_follow (Some f) evs"
  by (cases evs) (auto split: event.splits)

lemma unzip_one_shape:
  "\<exists>s' new. unzip_one w f s = Some (Done s') \<and> trace s' = trace s @ new \<and> stages new = []
      \<and> (\<forall>rest. removes_follow None rest \<longrightarrow> removes_follow None (new @ rest))"
proof (cases "splitext_ext f = ''.zip''")
  case False
  then show ?thesis by (simp add: unzip_one_def stages_def List.map_filter_def)
next
  case True
  obtain r fs' where ex: "extractall w f (dirname f) (files s) = (r, fs')"
    by (cases "extractall w f (dirname f) (files s)") auto
  show ?thesis
    using True ex
    by (cases r; cases "fs' f")
       (auto simp: unzip_defs removes_follow_Some stages_def List.map_filter_def)
qed

lemma unzip_loop_shape:
  "\<exists>s' new. run_steps (map (unzip_one w) fns) s = Some (Done s') \<and> trace s' = trace s @ new
      \<and> stages new = [] \<and> removes_follow None new"
proof (induction fns arbitrary: s)
  case Nil
  then show ?case by (simp add: stages_def List.map_filter_def)
next
  case (Cons f fns)
  from unzip_one_shape[of w f s]
  obtain s1 new1 where s1: "unzip_one w f s = Some (Done s1)" "trace s1 = trace s @ new1"
    "stages new1 = []"
    "\<forall>rest. removes_follow None rest \<longrightarrow> removes_follow None (new1 @ rest)"
    by blast
  from Cons.IH[of s1]
  obtain s' new where s': "run_steps (map (unzip_one w) fns) s1 = Some (Done s')"
    "trace s' = trace s1 @ new" "stages new = []" "removes_follow None new"
    by blast
  have "removes_follow None (new1 @ new)" using s1(4) s'(4) by blast
  moreover have "stages (new1 @ new) = []" using s1(3) s'(3) by (simp add: stages_append)
  ultimately show ?case using s1 s' by simp
qed

subsection \<open>The handlers and the unzip step\<close>

lemma sample_archive:
  "splitext_ext ''/home/jovyan/products/S3B.zip'' = ''.zip''"
  "dirname ''/home/jovyan/products/S3B.zip'' = ''/home/jovyan/products''"
  "sample_files ''/home/jovyan/products/S3B.zip'' = Some ''damaged''"
  "sample_files ''./olci_data_descriptor.json'' = None"
  by (simp_all add: splitext_ext_def dirname_def rfind_def sample_files_def query_files)

text \<open>
  C7: The two handlers of the notebooks are bare \<open>except\<close> branches that print one fixed
  line: whatever the exception, the statement returns, nothing is raised again and
  nothing is tried again. In the descriptor cell of the how-to notebook this holds when
  the file cannot be read and when it cannot be parsed; in the unzip step of the
  marine-heatwaves notebook when the extraction raises (one \<open>extractall\<close>, no \<open>os.remove\<close>)
  and when \<open>os.remove\<close> raises after the extraction. So the descriptor cell and the
  loop over the downloaded files always return, whatever the files and the libraries do.
\<close>

theorem bare_except_prints_and_goes_on:
  "(body s = Some (Raise e s1) \<longrightarrow>
      try_except body (say msg) s = Some (Done (emit (Print msg) s1)))
   \<and> (read_text ''./olci_data_descriptor.json'' s = Inl e \<longrightarrow>
        load_descriptor_cell w s = Some (Done (emit (Print
          ''Your JSON file is not in the correct format, or is not found, please check it!'') s)))
   \<and> (read_text ''./olci_data_descriptor.json'' s = Inr src \<and> json_loads w src = Inl e \<longrightarrow>
        load_descriptor_cell w s = Some (Done (emit (Print
          ''Your JSON file is not in the correct format, or is not found, please check it!'') s)))
   \<and> (splitext_ext f = ''.zip'' \<and> extractall w f (dirname f) (files s) = (Some e, fs') \<longrightarrow>
        unzip_one w f s = Some (Done (s\<lparr>files := fs',
          trace := trace s @ [Print ''Unzipping file'', ExtractAll f (dirname f),
                              Print ''Failed to unzip....'']\<rparr>)))
   \<and> (splitext_ext f = ''.zip'' \<and> extractall w f (dirname f) (files s) = (None, fs')
        \<and> fs' f = None \<longrightarrow>
        unzip_one w f s = Some (Done (s\<lparr>files := fs',
          trace := trace s @ [Print ''Unzipping file'', ExtractAll f (dirname f), Remove f,
                              Print ''Failed to unzip....'']\<rparr>)))
   \<and> (\<exists>s'. load_descriptor_cell w s = Some (Done s'))
   \<and> (\<exists>s'. run_steps (map (unzip_one w) fns) s = Some (Done s'))"
proof -
  have "\<exists>s'. load_descriptor_cell w s = Some (Done s')"
    by (auto simp: load_descriptor_cell_def load_descriptor_def try_except_def say_def
          split: sum.splits)
  moreover have "\<exists>s'. run_steps (map (unzip_one w) fns) s = Some (Done s')"
    using unzip_loop_shape[of w fns s] by blast
  ultimately show ?thesis
    by (simp add: unzip_defs load_descriptor_cell_def load_descriptor_def)
qed

theorem bare_except_prints_and_goes_on_witness:
  "unzip_one sample_world ''/home/jovyan/products/S3B.zip'' sample_kernel =
     Some (Done (sample_kernel\<lparr>files := sample_files,
        trace := [Print ''Unzipping file'',
                  ExtractAll ''/home/jovyan/products/S3B.zip'' ''/home/jovyan/products'',
                  Print ''Failed to unzip....'']\<rparr>))
   \<and> load_descriptor_cell sample_world sample_kernel = Some (Done (emit (Print
          ''Your JSON file is not in the correct format, or is not found, please check it!'')
          sample_kernel))"
  using bare_except_prints_and_goes_on[where s = sample_kernel and w = sample_world
      and e = "FileNotFoundError ''./olci_data_descriptor.json''"]
    bare_except_prints_and_goes_on[where s = sample_kernel and w = sample_world
      and e = "Raised ''BadZipFile''" and f = "''/home/jovyan/products/S3B.zip''"
      and fs' = sample_files]
    sample_archive
  by (simp add: read_text_def sample_world_def sample_extractall_def sample_kernel_def)

lemma sample_zip:
  "splitext_ext ''/home/jovyan/products/S3A.zip'' = ''.zip''"
  "dirname ''/home/jovyan/products/S3A.zip'' = ''/home/jovyan/products''"
  "splitext_ext ''/home/jovyan/products/S3B.nc'' = ''.nc''"
  by (simp_all add: splitext_ext_def dirname_def rfind_def)

text \<open>
  C8, as the specification states it, fails for an archive that holds a member of its own
  name. The extraction into the directory of the archive overwrites the archive and then
  raises; the handler prints the failure and \<open>os.remove\<close> is not called, but the archive
  on disk is not what it was.
\<close>

theorem failed_extraction_changes_archive:
  "splitext_ext ''/home/jovyan/products/S3A.zip'' = ''.zip''
   \<and> files sample_kernel ''/home/jovyan/products/S3A.zip'' = Some ''PKsst''
   \<and> extractall self_world ''/home/jovyan/products/S3A.zip'' ''/home/jovyan/products''
        (files sample_kernel)
       = (Some (Raised ''EOFError''), sample_files(''/home/jovyan/products/S3A.zip'' \<mapsto> ''PK''))
   \<and> unzip_one self_world ''/home/jovyan/products/S3A.zip'' sample_kernel =
       Some (Done (sample_kernel\<lparr>
         files := sample_files(''/home/jovyan/products/S3A.zip'' \<mapsto> ''PK''),
         trace := [Print ''Unzipping file'',
                   ExtractAll ''/home/jovyan/products/S3A.zip'' ''/home/jovyan/products'',
                   Print ''Failed to unzip....'']\<rparr>))"
  using sample_files_lookup(2)
  by (simp add: sample_zip unzip_defs self_world_def self_extractall_def sample_world_def
        sample_kernel_def)

text \<open>
  C8, amended: The unzip step removes an archive only after its extraction has
  succeeded. For a file with the extension \<open>.zip\<close> whose extraction raises, the step
  prints the failure and does not call \<open>os.remove\<close>, and the files are as the failed
  extraction left them, which may have changed the archive itself. When the extraction
  returns and the archive is still there, \<open>os.remove\<close> is called straight after it and
  removes the archive. A file with another extension is left alone: no event, no
  change. In the whole loop every \<open>extractall\<close> is of a \<open>.zip\<close> file and every
  \<open>os.remove\<close> comes straight after the \<open>extractall\<close> of the same file.
\<close>

theorem zip_removed_only_after_extraction:
  "(splitext_ext f = ''.zip'' \<and> extractall w f (dirname f) (files s) = (Some e, fs') \<longrightarrow>
      (\<exists>s'. unzip_one w f s = Some (Done s') \<and> files s' = fs'
         \<and> trace s' = trace s @ [Print ''Unzipping file'', ExtractAll f (dirname f),
                                  Print ''Failed to unzip....'']))
   \<and> (splitext_ext f = ''.zip'' \<and> extractall w f (dirname f) (files s) = (None, fs')
        \<and> fs' f = Some c \<longrightarrow>
      (\<exists>s'. unzip_one w f s = Some (Done s') \<and> files s' = fs'(f := None)
         \<and> trace s' = trace s @ [Print ''Unzipping file'', ExtractAll f (dirname f), Remove f]))
   \<and> (splitext_ext f \<noteq> ''.zip'' \<longrightarrow> unzip_one w f s = Some (Done s))
   \<and> (\<exists>s' new. run_steps (map (unzip_one w) fns) s = Some (Done s')
         \<and> trace s' = trace s @ new \<and> removes_follow None new)"
  using unzip_loop_shape[of w fns s]
  by (auto simp: unzip_defs)

theorem zip_removed_only_after_extraction_witness:
  "(\<exists>s'. unzip_one sample_world ''/home/jovyan/products/S3B.zip'' sample_kernel = Some (Done s')
       \<and> files s' = sample_files
       \<and> trace s' = [Print ''Unzipping file'',
                     ExtractAll ''/home/jovyan/products/S3B.zip'' ''/home/jovyan/products'',
                     Print ''Failed to unzip....''])
   \<and> (\<exists>s'. unzip_one sample_world ''/home/jovyan/products/S3A.zip'' sample_kernel = Some (Done s')
       \<and> files s' = (sample_files(''/home/jovyan/products/sst.nc'' \<mapsto> ''sst''))
                       (''/home/jovyan/products/S3A.zip'' := None)
       \<and> trace s' = [Print ''Unzipping file'',
                     ExtractAll ''/home/jovyan/products/S3A.zip'' ''/home/jovyan/products'',
                     Remove ''/home/jovyan/products/S3A.zip''])
   \<and> unzip_one sample_world ''/home/jovyan/products/S3B.nc'' sample_kernel
       = Some (Done sample_kernel)"
  using zip_removed_only_after_extraction[where f = "''/home/jovyan/products/S3B.zip''"
      and w = sample_world and s = sample_kernel and e = "Raised ''BadZipFile''"
      and fs' = sample_files]
    zip_removed_only_after_extraction[where f = "''/home/jovyan/products/S3A.zip''"
      and w = sample_world and s = sample_kernel
      and fs' = "sample_files(''/home/jovyan/products/sst.nc'' \<mapsto> ''sst'')" and c = "''PKsst''"]
    zip_removed_only_after_extraction[where f = "''/home/jovyan/products/S3B.nc''"
      and w = sample_world and s = sample_kernel]
    sample_archive sample_zip sample_files_lookup(2)
  by (simp add: sample_world_def sample_extractall_def sample_kernel_def path_join_def)

subsection \<open>The order of the SST files\<close>

lemma request_years:
  "[2008 ..< 2019 + 1] = [2008,2009,2010,2011,2012,2013,2014,2015,2016,2017,2018,2019::nat]"
  "[2020 ..< 2021 + 1] = [2020, 2021::nat]"
  by (simp_all add: upt_rec)

lemma str_years:
  "str_nat 2008 = ''2008''" "str_nat 2009 = ''2009''" "str_nat 2010 = ''2010''"
  "str_nat 2011 = ''2011''" "str_nat 2012 = ''2012''" "str_nat 2013 = ''2013''"
  "str_nat 2014 = ''2014''" "str_nat 2015 = ''2015''" "str_nat 2016 = ''2016''"
  "str_nat 2017 = ''2017''" "str_nat 2018 = ''2018''" "str_nat 2019 = ''2019''"
  "str_nat 2020 = ''2020''" "str_nat 2021 = ''2021''"
  by (simp_all add: str_nat.simps digit_char_def)

lemma dataset_tags: "tag REP_dataset = ''REP''" "tag NRT_dataset = ''XNRT''"
  by (simp_all add: tag_def REP_dataset_def NRT_dataset_def)

lemma sst_user_filenames:
  "map user_filename sst_requests =
     [''METOFFICE-GLO-SST-L4-REP_2008-01-01_2008-12-31.nc'',
      ''METOFFICE-GLO-SST-L4-REP_2009-01-01_2009-12-31.nc'',
      ''METOFFICE-GLO-SST-L4-REP_2010-01-01_2010-12-31.nc'',
      ''METOFFICE-GLO-SST-L4-REP_2011-01-01_2011-12-31.nc'',
      ''METOFFICE-GLO-SST-L4-REP_2012-01-01_2012-12-31.nc'',
      ''METOFFICE-GLO-SST-L4-REP_2013-01-01_2013-12-31.nc'',
      ''METOFFICE-GLO-SST-L4-REP_2014-01-01_2014-12-31.nc'',
      ''METOFFICE-GLO-SST-L4-REP_2015-01-01_2015-12-31.nc'',
      ''METOFFICE-GLO-SST-L4-REP_2016-01-01_2016-12-31.nc'',
      ''METOFFICE-GLO-SST-L4-REP_2017-01-01_2017-12-31.nc'',
      ''METOFFICE-GLO-SST-L4-REP_2018-01-01_2018-12-31.nc'',
      ''METOFFICE-GLO-SST-L4-REP_2019-01-01_2019-12-31.nc'',
      ''METOFFICE-GLO-SST-L4-XNRT_2020-01-01_2020-12-31.nc'',
      ''METOFFICE-GLO-SST-L4-XNRT_2021-01-01_2021-12-31.nc'']"
  unfolding sst_requests_def request_years
  by (simp add: user_filename_def year_request_def str_years dataset_tags date_tag_def
        split_head_def)

lemma sst_user_filenames_sorted:
  "sorted (map user_filename sst_requests) \<and> distinct (map user_filename sst_requests)"
  unfolding sst_user_filenames by (simp add: less_char_def)

lemma same_prefix_le: "(pre @ x \<le> pre @ y) = (x \<le> (y :: string))"
  by (induction pre) simp_all

lemma user_filename_relative:
  "r \<in> set sst_requests \<Longrightarrow> \<not> prefix ''/'' (user_filename r)"
  by (auto simp: user_filename_def split: prod.splits)

lemma sst_download_paths_prefix:
  "\<exists>pre. sst_download_paths w = map ((@) pre) (map user_filename sst_requests)"
proof -
  let ?dir = "download_dir_path w"
  let ?pre = "if ?dir = [] \<or> last ?dir = CHR ''/'' then ?dir else ?dir @ ''/''"
  have "sst_download_paths w = map ((@) ?pre) (map user_filename sst_requests)"
    unfolding sst_download_paths_def
    by (auto simp: path_join_def user_filename_relative)
  then show ?thesis by blast
qed

lemma sst_download_paths_sorted:
  "sorted (sst_download_paths w) \<and> distinct (sst_download_paths w)"
proof -
  obtain pre where pre: "sst_download_paths w = map ((@) pre) (map user_filename sst_requests)"
    using sst_download_paths_prefix by blast
  have "sorted (map ((@) pre) (map user_filename sst_requests))"
    using sst_user_filenames_sorted
    by (simp only: sorted_map[of "(@) pre"] same_prefix_le)
  moreover have "distinct (map ((@) pre) (map user_filename sst_requests))"
    using sst_user_filenames_sorted by (simp only: distinct_map) (auto simp: inj_on_def)
  ultimately show ?thesis using pre by simp
qed

lemma sample_download_paths:
  "sst_download_paths sample_world =
     map ((@) ''/home/jovyan/products/'') (map user_filename sst_requests)"
  unfolding sst_download_paths_def
  by (auto simp: path_join_def user_filename_relative download_dir_path_def sample_world_def)

text \<open>
  C10: The SST files are read in the order of their years. The download loop names them
  \<open>METOFFICE-GLO-SST-L4-REP_{year}-01-01_{year}-12-31.nc\<close> for 2008 to 2019 and
  \<open>METOFFICE-GLO-SST-L4-XNRT_...\<close> for 2020 and 2021. Whatever files of these the
  \<open>glob\<close> finds in the download directory, in whatever order, sorting them gives them in
  the order of the download loop: the \<open>REP\<close> files first, each group by increasing
  year.
\<close>

theorem sst_files_chronological:
  assumes "set my_files \<subseteq> set (sst_download_paths w)" and "distinct my_files"
  shows "SST_files my_files = filter (\<lambda>p. p \<in> set my_files) (sst_download_paths w)
    \<and> map user_filename sst_requests =
       [''METOFFICE-GLO-SST-L4-REP_2008-01-01_2008-12-31.nc'',
        ''METOFFICE-GLO-SST-L4-REP_2009-01-01_2009-12-31.nc'',
        ''METOFFICE-GLO-SST-L4-REP_2010-01-01_2010-12-31.nc'',
        ''METOFFICE-GLO-SST-L4-REP_2011-01-01_2011-12-31.nc'',
        ''METOFFICE-GLO-SST-L4-REP_2012-01-01_2012-12-31.nc'',
        ''METOFFICE-GLO-SST-L4-REP_2013-01-01_2013-12-31.nc'',
        ''METOFFICE-GLO-SST-L4-REP_2014-01-01_2014-12-31.nc'',
        ''METOFFICE-GLO-SST-L4-REP_2015-01-01_2015-12-31.nc'',
        ''METOFFICE-GLO-SST-L4-REP_2016-01-01_2016-12-31.nc'',
        ''METOFFICE-GLO-SST-L4-REP_2017-01-01_2017-12-31.nc'',
        ''METOFFICE-GLO-SST-L4-REP_2018-01-01_2018-12-31.nc'',
        ''METOFFICE-GLO-SST-L4-REP_2019-01-01_2019-12-31.nc'',
        ''METOFFICE-GLO-SST-L4-XNRT_2020-01-01_2020-12-31.nc'',
        ''METOFFICE-GLO-SST-L4-XNRT_2021-01-01_2021-12-31.nc'']"
proof -
  have "sorted (sort my_files)" "distinct (sort my_files)" "set (sort my_files) = set my_files"
    using assms by simp_all
  moreover have "sorted (filter (\<lambda>p. p \<in> set my_files) (sst_download_paths w))"
    using sst_download_paths_sorted[of w] by (simp add: sorted_wrt_filter)
  moreover have "distinct (filter (\<lambda>p. p \<in> set my_files) (sst_download_paths w))"
    using sst_download_paths_sorted by simp
  moreover have "set (filter (\<lambda>p. p \<in> set my_files) (sst_download_paths w)) = set my_files"
    using assms(1) by auto
  ultimately have "SST_files my_files = filter (\<lambda>p. p \<in> set my_files) (sst_download_paths w)"
    unfolding SST_files_def by (metis sorted_distinct_set_unique)
  then show ?thesis using sst_user_filenames by simp
qed

theorem sst_files_chronological_witness:
  "SST_files
     [''/home/jovyan/products/METOFFICE-GLO-SST-L4-XNRT_2020-01-01_2020-12-31.nc'',
      ''/home/jovyan/products/METOFFICE-GLO-SST-L4-REP_2019-01-01_2019-12-31.nc'',
      ''/home/jovyan/products/METOFFICE-GLO-SST-L4-REP_2008-01-01_2008-12-31.nc'']
   = [''/home/jovyan/products/METOFFICE-GLO-SST-L4-REP_2008-01-01_2008-12-31.nc'',
      ''/home/jovyan/products/METOFFICE-GLO-SST-L4-REP_2019-01-01_2019-12-31.nc'',
      ''/home/jovyan/products/METOFFICE-GLO-SST-L4-XNRT_2020-01-01_2020-12-31.nc'']"
  using sst_files_chronological[of
      "[''/home/jovyan/products/METOFFICE-GLO-SST-L4-XNRT_2020-01-01_2020-12-31.nc'',
        ''/home/jovyan/products/METOFFICE-GLO-SST-L4-REP_2019-01-01_2019-12-31.nc'',
        ''/home/jovyan/products/METOFFICE-GLO-SST-L4-REP_2008-01-01_2008-12-31.nc'']"
      sample_world]
  unfolding sample_download_paths sst_user_filenames
  by simp

section \<open>Properties of the modelled helper module\<close>

subsection \<open>Effects\<close>

lemma requests_simps:
  "requests [] = []"
  "requests (Request r # xs) = r # requests xs"
  "requests (Printed l # xs) = requests xs"
  "requests (Sleep n # xs) = requests xs"
  "requests (Wrote p # xs) = requests xs"
  by (simp_all add: requests_def List.map_filter_def)

lemma requests_append: "requests (xs @ ys) = requests xs @ requests ys"
  by (simp add: requests_def map_filter_append)

lemma requests_printed: "requests (map Printed ls) = []"
  by (induction ls) (simp_all add: requests_simps)

lemma printed_simps:
  "printed [] = []"
  "printed (Request r # xs) = printed xs"
  "printed (Printed l # xs) = l # printed xs"
  "printed (Sleep n # xs) = printed xs"
  "printed (Wrote p # xs) = printed xs"
  by (simp_all add: printed_def List.map_filter_def)

lemma printed_append: "printed (xs @ ys) = printed xs @ printed ys"
  by (simp add: printed_def map_filter_append)

lemma printed_map_Printed: "printed (map Printed ls) = ls"
  by (induction ls) (simp_all add: printed_simps)

lemma written_simps:
  "written [] = []"
  "written (Request r # xs) = written xs"
  "written (Printed l # xs) = written xs"
  "written (Sleep n # xs) = written xs"
  "written (Wrote p # xs) = p # written xs"
  by (simp_all add: written_def List.map_filter_def)

lemma written_append: "written (xs @ ys) = written xs @ written ys"
  by (simp add: written_def map_filter_append)

lemma written_printed: "written (map Printed ls) = []"
  by (induction ls) (simp_all add: written_simps)

lemma orders_append: "orders (xs @ ys) = orders xs @ orders ys"
  by (simp add: orders_def requests_append map_filter_append)

lemma orders_Cons:
  "orders (Request (PostDataOrder j f) # xs) = (j, f) # orders xs"
  "orders (Printed l # xs) = orders xs"
  by (simp_all add: orders_def requests_simps List.map_filter_def)

subsection \<open>Polling\<close>

lemma requests_status_check: "requests (status_check wait rq status k) = [rq]"
  by (simp add: status_check_def requests_simps)

lemma poll_requests:
  assumes "poll wait rq status k = Some effs"
  shows "list_all (\<lambda>r. r = rq) (requests effs)"
  by (rule poll.raw_induct[where P = "\<lambda>wait rq status k effs. list_all (\<lambda>r. r = rq) (requests effs)",
        OF _ assms])
     (auto simp: requests_append requests_status_check split: if_splits bind_splits)

lemma poll_returns:
  "status (k + n) = ''completed'' \<Longrightarrow> \<exists>effs. poll wait rq status k = Some effs"
proof (induction n arbitrary: k)
  case 0
  then show ?case by (subst poll.simps) simp
next
  case (Suc n)
  show ?case
  proof (cases "status k = ''completed''")
    case True
    then show ?thesis by (subst poll.simps) simp
  next
    case False
    from Suc.IH[of "Suc k"] Suc.prems
    obtain rest where "poll wait rq status (Suc k) = Some rest" by auto
    with False show ?thesis by (subst poll.simps) simp
  qed
qed

lemma poll_order_requests:
  assumes "poll wait (GetOrderStatus oid) status k = Some effs"
  shows "orders effs = [] \<and> list_all (for_job jid) (requests effs)"
proof -
  from poll_requests[OF assms]
  have all: "list_all (\<lambda>r. r = GetOrderStatus oid) (requests effs)" .
  then have "list_all (for_job jid) (requests effs)"
    by (auto simp: list_all_iff for_job_def)
  moreover have "List.map_filter (\<lambda>rq. case rq of PostDataOrder j f \<Rightarrow> Some (j, f) | _ \<Rightarrow> None) rs = []"
    if "list_all (\<lambda>r. r = GetOrderStatus oid) rs" for rs
    using that by (induction rs) (auto simp: List.map_filter_def)
  ultimately show ?thesis using all by (simp add: orders_def)
qed

lemma poll_completes:
  "status (k + n) = ''completed'' \<Longrightarrow> \<forall>i<n. status (k + i) \<noteq> ''completed'' \<Longrightarrow>
   poll wait rq status k = Some (concat (map (status_check wait rq status) [k..<Suc (k + n)]))"
proof (induction n arbitrary: k)
  case 0
  then show ?case by (subst poll.simps) simp
next
  case (Suc n)
  have later: "status (Suc k + n) = ''completed''" "\<forall>i<n. status (Suc k + i) \<noteq> ''completed''"
    using Suc.prems by auto
  have now: "status k \<noteq> ''completed''" using Suc.prems(2) by (auto dest: spec[of _ 0])
  have "poll wait rq status k =
      Some (status_check wait rq status k
            @ concat (map (status_check wait rq status) [Suc k..<Suc (Suc k + n)]))"
    using now Suc.IH[OF later] by (subst poll.simps) (simp del: upt_Suc)
  moreover have "[k..<Suc (k + Suc n)] = k # [Suc k..<Suc (Suc k + n)]"
    by (simp add: upt_conv_Cons del: upt_Suc)
  ultimately show ?case by (simp del: upt_Suc)
qed

lemma str_waits: "str_nat 5 = ''5''" "str_nat 10 = ''10''"
  by (simp_all add: str_nat.simps digit_char_def)

lemma recorded_poll_job:
  "poll recorded_wait rq (job_status recorded_service jid) 0 =
     Some [Printed ''Next check in 5 seconds'', Sleep 5, Request rq,
           Printed ''Query successfully submitted. Status is running'',
           Printed ''Next check in 10 seconds'', Sleep 10, Request rq,
           Printed ''Query successfully submitted. Status is completed'']"
  using poll_completes[of "job_status recorded_service jid" 0 1 recorded_wait rq]
  by (simp add: recorded_service_def recorded_wait_def status_check_def str_waits)

lemma recorded_poll_order:
  "poll recorded_wait rq (order_status recorded_service oid) 0 =
     Some [Printed ''Next check in 5 seconds'', Sleep 5, Request rq,
           Printed ''Query successfully submitted. Status is completed'']"
  using poll_completes[of "order_status recorded_service oid" 0 0 recorded_wait rq]
  by (simp add: recorded_service_def recorded_wait_def status_check_def str_waits)

lemma recorded_job_run:
  "get_job_id recorded_service recorded_wait recorded_session howto_data =
     Some (after_job,
       [Request (PostDataRequest howto_data),
        Printed ''Query successfully submitted. Job ID is _AIq3_hSl985LlGXkmNbBe0BIKI'',
        Printed ''Next check in 5 seconds'', Sleep 5,
        Request (GetJobStatus ''_AIq3_hSl985LlGXkmNbBe0BIKI''),
        Printed ''Query successfully submitted. Status is running'',
        Printed ''Next check in 10 seconds'', Sleep 10,
        Request (GetJobStatus ''_AIq3_hSl985LlGXkmNbBe0BIKI''),
        Printed ''Query successfully submitted. Status is completed''])"
  unfolding get_job_id_def Let_def recorded_poll_job
  by (simp add: after_job_def recorded_service_def)

lemma recorded_results_run:
  "get_results_list recorded_service after_job None =
     Inr (after_results,
       [Request (GetResult ''_AIq3_hSl985LlGXkmNbBe0BIKI'' None), Printed recorded_file])"
  by (simp add: get_results_list_def after_job_def after_results_def recorded_service_def)

lemma recorded_order_run:
  "get_order_ids recorded_service recorded_wait after_results =
     Some (Inr (after_orders,
       [Request (PostDataOrder ''_AIq3_hSl985LlGXkmNbBe0BIKI'' recorded_file),
        Printed ''Query successfully submitted. Order ID is rNwI5K4U0mtVS3jWiHnoaaNuPAc'',
        Printed ''Next check in 5 seconds'', Sleep 5,
        Request (GetOrderStatus ''rNwI5K4U0mtVS3jWiHnoaaNuPAc''),
        Printed ''Query successfully submitted. Status is completed'']))"
  unfolding get_order_ids_def
  by (simp add: after_results_def after_job_def recorded_session_def recorded_poll_order
      after_orders_def Let_def)
     (simp add: recorded_service_def)

subsection \<open>The job ID and the order IDs\<close>

lemma get_job_id_returns:
  assumes "job_status svc (post_datarequest svc q) n = ''completed''"
  shows "\<exists>effs. get_job_id svc wait d q = Some (d\<lparr>job_id := Some (post_datarequest svc q)\<rparr>,
             [Request (PostDataRequest q),
              Printed (''Query successfully submitted. Job ID is '' @ post_datarequest svc q)] @ effs)
           \<and> list_all (\<lambda>r. r = GetJobStatus (post_datarequest svc q)) (requests effs)"
proof -
  let ?jid = "post_datarequest svc q"
  from poll_returns[of "job_status svc ?jid" 0 n wait "GetJobStatus ?jid"] assms
  obtain effs where effs: "poll wait (GetJobStatus ?jid) (job_status svc ?jid) 0 = Some effs"
    by auto
  from poll_requests[OF effs] effs show ?thesis
    by (simp add: get_job_id_def Let_def)
qed

lemma order_files_returns:
  assumes "\<forall>f\<in>set fs. \<exists>n. order_status svc (post_dataorder svc jid (filename f)) n = ''completed''"
  shows "\<exists>effs. order_files svc wait jid fs
             = Some (map (\<lambda>f. post_dataorder svc jid (filename f)) fs, effs)
           \<and> orders effs = map (\<lambda>f. (jid, filename f)) fs
           \<and> list_all (for_job jid) (requests effs)"
  using assms
proof (induction fs)
  case Nil
  then show ?case by (simp add: orders_def requests_simps List.map_filter_def)
next
  case (Cons f fs)
  let ?oid = "post_dataorder svc jid (filename f)"
  from Cons.prems obtain n where n: "order_status svc ?oid n = ''completed''" by auto
  from poll_returns[of "order_status svc ?oid" 0 n wait "GetOrderStatus ?oid"] n
  obtain pe where pe: "poll wait (GetOrderStatus ?oid) (order_status svc ?oid) 0 = Some pe"
    by auto
  from Cons.IH Cons.prems
  obtain rest where rest: "order_files svc wait jid fs
             = Some (map (\<lambda>f. post_dataorder svc jid (filename f)) fs, rest)"
    "orders rest = map (\<lambda>f. (jid, filename f)) fs" "list_all (for_job jid) (requests rest)"
    by auto
  from poll_order_requests[OF pe, of jid]
  have quiet: "orders pe = []" "list_all (for_job jid) (requests pe)" by simp_all
  have "for_job jid (PostDataOrder jid (filename f))" by (simp add: for_job_def)
  with pe rest quiet show ?case
    by (simp add: Let_def orders_append orders_Cons requests_append requests_simps)
qed

lemma requests_download_one: "requests (download_one svc oid path) = [GetDownload oid]"
  by (simp add: download_one_def requests_append requests_printed requests_simps)

lemma written_download_one: "written (download_one svc oid path) = [path]"
  by (simp add: download_one_def written_append written_printed written_simps)

lemma printed_download_one:
  "printed (download_one svc oid path) = download_lines path (measured svc oid)"
  by (simp add: download_one_def printed_simps printed_append printed_map_Printed)

lemma requests_of_targets:
  "requests (concat (map (\<lambda>t. download_one svc (fst t) (snd t)) ts)) = map (GetDownload \<circ> fst) ts"
  by (induction ts) (simp_all add: requests_append requests_download_one requests_simps)

lemma written_of_targets:
  "written (concat (map (\<lambda>t. download_one svc (fst t) (snd t)) ts)) = map snd ts"
  by (induction ts) (simp_all add: written_append written_download_one written_simps)

lemma downloads_of_targets:
  "downloads (concat (map (\<lambda>t. download_one svc (fst t) (snd t)) ts)) = map fst ts"
  unfolding downloads_def requests_of_targets
  by (induction ts) (simp_all add: List.map_filter_def)

lemma printed_targets:
  "printed (concat (map (\<lambda>t. download_one svc (fst t) (snd t)) ts))
     = concat (map (\<lambda>t. download_lines (snd t) (measured svc (fst t))) ts)"
  by (induction ts) (simp_all add: printed_simps printed_append printed_download_one)

lemma recorded_defs_job:
  "post_datarequest recorded_service q = ''_AIq3_hSl985LlGXkmNbBe0BIKI''"
  "job_status recorded_service jid (Suc k) = ''completed''"
  "post_dataorder recorded_service jid f = ''rNwI5K4U0mtVS3jWiHnoaaNuPAc''"
  "order_status recorded_service oid k = ''completed''"
  "get_result recorded_service jid page
     = \<lparr>content = [\<lparr>filename = recorded_file\<rparr>], totItems = 1, itemsInPage = 1\<rparr>"
  by (simp_all add: recorded_service_def)

text \<open>
  C6: In the model of the helper module, when the job of the request completes,
  \<open>get_job_id\<close> returns and has stored the job ID that the API returned for the request:
  it posts the request and then only asks for the status of that job. \<open>get_results_list\<close>
  then asks for the results of that job, and \<open>get_order_ids\<close>, when the orders complete,
  returns and has ordered each file of the results for that job; both leave the job ID
  in the dictionary as it was. Without a job ID in the dictionary both raise \<open>KeyError\<close>.
\<close>

theorem job_id_kept:
  assumes "job_status svc (post_datarequest svc q) n = ''completed''"
  shows "\<exists>d1 effs1. get_job_id svc wait d q = Some (d1, effs1)
      \<and> job_id d1 = Some (post_datarequest svc q)
      \<and> hd (requests effs1) = PostDataRequest q
      \<and> list_all (\<lambda>rq. rq = GetJobStatus (post_datarequest svc q)) (tl (requests effs1))
      \<and> (\<exists>d2 effs2. get_results_list svc d1 page = Inr (d2, effs2)
            \<and> requests effs2 = [GetResult (post_datarequest svc q) page]
            \<and> printed effs2 = map filename (content (get_result svc (post_datarequest svc q) page))
            \<and> results d2 = Some (get_result svc (post_datarequest svc q) page)
            \<and> job_id d2 = Some (post_datarequest svc q)
            \<and> ((\<forall>f\<in>set (content (get_result svc (post_datarequest svc q) page)).
                   \<exists>m. order_status svc
                         (post_dataorder svc (post_datarequest svc q) (filename f)) m
                       = ''completed'') \<longrightarrow>
                (\<exists>d3 effs3. get_order_ids svc wait d2 = Some (Inr (d3, effs3))
                   \<and> job_id d3 = Some (post_datarequest svc q)
                   \<and> orders effs3
                       = map (\<lambda>f. (post_datarequest svc q, filename f))
                           (content (get_result svc (post_datarequest svc q) page))
                   \<and> list_all (for_job (post_datarequest svc q)) (requests effs3))))
      \<and> (job_id d = None \<longrightarrow>
            get_results_list svc d page = Inl (KeyError ''job_id'')
            \<and> get_order_ids svc wait d = Some (Inl (KeyError ''job_id'')))"
proof -
  let ?jid = "post_datarequest svc q"
  let ?d1 = "d\<lparr>job_id := Some ?jid\<rparr>"
  let ?r = "get_result svc ?jid page"
  let ?d2 = "?d1\<lparr>results := Some ?r\<rparr>"
  from get_job_id_returns[OF assms, of wait d]
  obtain effs where job: "get_job_id svc wait d q = Some (?d1,
             [Request (PostDataRequest q),
              Printed (''Query successfully submitted. Job ID is '' @ ?jid)] @ effs)"
    and polls: "list_all (\<lambda>r. r = GetJobStatus ?jid) (requests effs)"
    by blast
  have res: "get_results_list svc ?d1 page
       = Inr (?d2, Request (GetResult ?jid page) # map (\<lambda>f. Printed (filename f)) (content ?r))"
    by (simp add: get_results_list_def Let_def)
  have res_effs: "requests (Request (GetResult ?jid page) # map (\<lambda>f. Printed (filename f)) (content ?r))
        = [GetResult ?jid page]"
      "printed (Request (GetResult ?jid page) # map (\<lambda>f. Printed (filename f)) (content ?r))
        = map filename (content ?r)"
    using requests_printed[of "map filename (content ?r)"]
      printed_map_Printed[of "map filename (content ?r)"]
    by (simp_all add: requests_simps printed_simps o_def)
  have ord: "\<exists>d3 effs3. get_order_ids svc wait ?d2 = Some (Inr (d3, effs3))
                   \<and> job_id d3 = Some ?jid
                   \<and> orders effs3 = map (\<lambda>f. (?jid, filename f)) (content ?r)
                   \<and> list_all (for_job ?jid) (requests effs3)"
    if "\<forall>f\<in>set (content ?r). \<exists>m. order_status svc (post_dataorder svc ?jid (filename f)) m
                       = ''completed''"
    using order_files_returns[OF that, of wait]
    by (auto simp: get_order_ids_def)
  have none: "job_id d = None \<longrightarrow>
            get_results_list svc d page = Inl (KeyError ''job_id'')
            \<and> get_order_ids svc wait d = Some (Inl (KeyError ''job_id''))"
    by (simp add: get_results_list_def get_order_ids_def)
  show ?thesis
    using job polls res res_effs ord none
    by (intro exI[of _ ?d1] exI[of _ "[Request (PostDataRequest q),
              Printed (''Query successfully submitted. Job ID is '' @ ?jid)] @ effs"])
       (simp add: requests_simps)
qed

theorem job_id_kept_witness:
  "job_status recorded_service (post_datarequest recorded_service howto_data) 1 = ''completed''
   \<and> (\<exists>d1 effs1. get_job_id recorded_service recorded_wait recorded_session howto_data
                    = Some (d1, effs1)
        \<and> job_id d1 = Some ''_AIq3_hSl985LlGXkmNbBe0BIKI''
        \<and> printed effs1 = recorded_get_job_id
        \<and> (\<exists>d2 effs2. get_results_list recorded_service d1 None = Inr (d2, effs2)
              \<and> requests effs2 = [GetResult ''_AIq3_hSl985LlGXkmNbBe0BIKI'' None]
              \<and> printed effs2 = recorded_get_results_list
              \<and> (\<exists>d3 effs3. get_order_ids recorded_service recorded_wait d2
                               = Some (Inr (d3, effs3))
                    \<and> job_id d3 = Some ''_AIq3_hSl985LlGXkmNbBe0BIKI''
                    \<and> orders effs3 = [(''_AIq3_hSl985LlGXkmNbBe0BIKI'', recorded_file)]
                    \<and> printed effs3 = recorded_get_order_ids)))"
  using job_id_kept[where svc = recorded_service and q = howto_data and n = 1
      and wait = recorded_wait and d = recorded_session and page = None]
    recorded_job_run recorded_results_run recorded_order_run
  by (simp add: recorded_defs_job printed_simps requests_simps orders_Cons orders_def
        List.map_filter_def recorded_get_job_id_def recorded_get_results_list_def
        recorded_get_order_ids_def after_job_def after_orders_def after_results_def)

text \<open>
  C5: In the model of the helper module, when the order of each file of the results list
  completes, \<open>get_order_ids\<close> returns and has placed one order per file and assigned to
  each file, in the order of the list, the order ID that the API returned for it.
  \<open>download_data\<close> then sends exactly one download request per file, with the order ID
  of that file and in the order of the files, and writes one file for each. Without
  order IDs in the dictionary \<open>download_data\<close> raises \<open>KeyError\<close>.
\<close>

theorem downloads_go_by_order_id:
  assumes "job_id d = Some jid" and "results d = Some r"
    and "\<forall>f\<in>set (content r). \<exists>n. order_status svc (post_dataorder svc jid (filename f)) n
            = ''completed''"
  shows "\<exists>d' effs. get_order_ids svc wait d = Some (Inr (d', effs))
      \<and> order_ids d' = Some (map (\<lambda>f. post_dataorder svc jid (filename f)) (content r))
      \<and> orders effs = map (\<lambda>f. (jid, filename f)) (content r)
      \<and> results d' = Some r
      \<and> (\<exists>d'' effs'. download_data_of svc d' ext ufn = Inr (d'', effs')
            \<and> requests effs'
                = map (\<lambda>f. GetDownload (post_dataorder svc jid (filename f))) (content r)
            \<and> downloads effs' = map (\<lambda>f. post_dataorder svc jid (filename f)) (content r)
            \<and> written effs' = map (target_path d' ext ufn) (content r))
      \<and> (order_ids d = None \<longrightarrow> download_data_of svc d ext ufn = Inl (KeyError ''order_ids''))"
proof -
  let ?oids = "map (\<lambda>f. post_dataorder svc jid (filename f)) (content r)"
  let ?d' = "d\<lparr>order_ids := Some ?oids\<rparr>"
  let ?ts = "zip ?oids (map (target_path ?d' ext ufn) (content r))"
  from order_files_returns[OF assms(3), of wait]
  obtain effs where effs: "order_files svc wait jid (content r) = Some (?oids, effs)"
    "orders effs = map (\<lambda>f. (jid, filename f)) (content r)"
    by blast
  have run: "get_order_ids svc wait d = Some (Inr (?d', effs))"
    using assms(1,2) effs(1) by (simp add: get_order_ids_def)
  have fst_ts: "map fst ?ts = ?oids" and snd_ts: "map snd ?ts = map (target_path ?d' ext ufn) (content r)"
    by simp_all
  have dl: "download_data_of svc ?d' ext ufn
      = Inr (?d'\<lparr>filenames := Some (map snd ?ts)\<rparr>,
             concat (map (\<lambda>t. download_one svc (fst t) (snd t)) ?ts))"
    using assms(2) by (simp add: download_data_of_def Let_def)
  have reqs: "requests (concat (map (\<lambda>t. download_one svc (fst t) (snd t)) ?ts))
      = map (\<lambda>f. GetDownload (post_dataorder svc jid (filename f))) (content r)"
    unfolding requests_of_targets map_map[symmetric] fst_ts by (simp add: o_def)
  have "order_ids d = None \<longrightarrow> download_data_of svc d ext ufn = Inl (KeyError ''order_ids'')"
    by (simp add: download_data_of_def)
  then show ?thesis
    using run effs(2) assms(2) dl reqs
      downloads_of_targets[of svc ?ts] written_of_targets[of svc ?ts]
    unfolding fst_ts snd_ts
    by (intro exI[of _ ?d'] exI[of _ effs]) simp
qed

theorem downloads_go_by_order_id_witness:
  "\<exists>d' effs. get_order_ids recorded_service recorded_wait after_results = Some (Inr (d', effs))
     \<and> order_ids d' = Some [''rNwI5K4U0mtVS3jWiHnoaaNuPAc'']
     \<and> orders effs = [(''_AIq3_hSl985LlGXkmNbBe0BIKI'', recorded_file)]
     \<and> (\<exists>d'' effs'. download_data_of recorded_service d' (Some ''.nc'') None = Inr (d'', effs')
           \<and> requests effs' = [GetDownload ''rNwI5K4U0mtVS3jWiHnoaaNuPAc'']
           \<and> downloads effs' = [''rNwI5K4U0mtVS3jWiHnoaaNuPAc''])"
  using downloads_go_by_order_id[where svc = recorded_service and d = after_results
      and jid = "''_AIq3_hSl985LlGXkmNbBe0BIKI''"
      and r = "\<lparr>content = [\<lparr>filename = recorded_file\<rparr>], totItems = 1, itemsInPage = 1\<rparr>"
      and wait = recorded_wait and ext = "Some ''.nc''" and ufn = None]
  by (simp add: recorded_defs_job after_results_def after_job_def recorded_session_def) blast

subsection \<open>The progress of a download\<close>

lemma rfind_from_absent: "c \<notin> set ys \<Longrightarrow> rfind_from c i found ys = found"
  by (induction ys arbitrary: i) auto

lemma rfind_from_last:
  "c \<notin> set ys \<Longrightarrow> rfind_from c i found (xs @ c # ys) = i + int (length xs)"
  by (induction xs arbitrary: i found) (simp_all add: rfind_from_absent)

lemma dirname_path_join:
  assumes name: "CHR ''/'' \<notin> set name" and dir: "\<exists>c\<in>set dir. c \<noteq> CHR ''/''"
  shows "dirname (path_join dir name) = rstrip CHR ''/'' dir"
proof -
  from dir have ne: "dir \<noteq> []" by auto
  have rel: "\<not> prefix ''/'' name" using name by (cases name) auto
  have not_slashes: "xs \<noteq> replicate n CHR ''/''" if "set dir \<subseteq> set xs" for xs n
    using dir that by auto
  show ?thesis
  proof (cases "last dir = CHR ''/''")
    case True
    with ne have split: "dir = butlast dir @ [CHR ''/'']"
      by (metis append_butlast_last_id)
    have path: "path_join dir name = butlast dir @ CHR ''/'' # name"
      using ne True rel split by (simp add: path_join_def)
    have "rfind CHR ''/'' (path_join dir name) = int (length (butlast dir))"
      unfolding path rfind_def using rfind_from_last[OF name] by simp
    moreover have "Suc (length (butlast dir)) = length dir"
      using ne by simp
    ultimately have idx: "nat (rfind CHR ''/'' (path_join dir name) + 1) = length dir"
      by linarith
    have head: "take (length dir) (path_join dir name) = dir"
      using ne True rel by (simp add: path_join_def)
    have "dir \<noteq> replicate (length dir) CHR ''/''"
      by (rule not_slashes) simp
    then show ?thesis
      unfolding dirname_def Let_def idx head using ne by simp
  next
    case False
    have path: "path_join dir name = dir @ CHR ''/'' # name"
      using ne False rel by (simp add: path_join_def)
    have "rfind CHR ''/'' (path_join dir name) = int (length dir)"
      unfolding path rfind_def using rfind_from_last[OF name] by simp
    then have idx: "nat (rfind CHR ''/'' (path_join dir name) + 1) = Suc (length dir)"
      by simp
    have head: "take (Suc (length dir)) (path_join dir name) = dir @ [CHR ''/'']"
      unfolding path by simp
    have "dir @ [CHR ''/''] \<noteq> replicate (length (dir @ [CHR ''/''])) CHR ''/''"
      by (rule not_slashes) auto
    then show ?thesis
      unfolding dirname_def Let_def idx head by simp
  qed
qed

lemma py_in_Nil: "py_in [] s"
  by (cases s) simp_all

lemma py_in_here: "py_in sub (sub @ ys)"
  by (cases sub) (simp_all add: py_in_Nil)

lemma py_in_append: "py_in sub (xs @ sub @ ys)"
  by (induction xs) (simp_all add: py_in_here)

lemma line_kinds_of_download: "map line_kind (download_lines path m) = download_report"
proof -
  let ?bar = "''['' @ replicate 50 CHR ''='' @ '']'' @ rate_Mbps m @ '' Mbps['' @ size_MB m
        @ ''] MB downloaded, '' @ rate_kbps m @ '' kbps''"
  have "?bar = (''['' @ replicate 50 CHR ''='' @ '']'' @ rate_Mbps m @ '' M'') @ ''bps''
        @ (''['' @ size_MB m @ ''] MB downloaded, '' @ rate_kbps m @ '' kbps'')"
    by simp
  then have "py_in ''bps'' ?bar"
    by (simp only: py_in_append)
  moreover have "prefix ''['' ?bar" "\<not> prefix ''Downloading '' ?bar"
    "\<not> prefix ''File size is: '' ?bar"
    by simp_all
  ultimately have "line_kind ?bar = Some Progress"
    unfolding line_kind_def by (simp only: if_True if_False simp_thms)
  then show ?thesis
    unfolding download_lines_def download_report_def
    by (simp add: line_kind_def)
qed

lemma kinds_of_targets:
  "map line_kind (concat (map (\<lambda>t. download_lines (snd t) (measured svc (fst t))) ts))
     = concat (map (\<lambda>t. download_report) ts)"
  by (induction ts) (simp_all add: line_kinds_of_download)

lemma full_bar: "replicate 50 CHR ''='' = ''==================================================''"
  by (simp add: eval_nat_numeral)

text \<open>
  C9: In the model of the helper module, \<open>download_data\<close> on a dictionary with one order
  ID per file of the results list returns, and for each file in turn it requests the
  download of the file's order ID, prints the target path, the file size, the progress
  with the transfer rate, the completion message and the elapsed time, and writes the
  file; the paths written are kept under \<open>filenames\<close>. The target is the file's name
  joined to the download directory, so that the directory of a written file is the
  download directory, and with the names of the SST loop the files written are the
  files that the marine-heatwaves notebook later looks for. On the dictionary of the
  recorded run the model prints the lines that the how-to notebook recorded.
\<close>

theorem download_prints_progress:
  assumes "order_ids d = Some oids" and "results d = Some r"
    and "length oids = length (content r)"
  shows "(let paths = map (\<lambda>f. path_join (download_dir d) (file_name ext ufn f)) (content r);
              effs = concat (map (\<lambda>t. download_one svc (fst t) (snd t)) (zip oids paths))
          in download_data_of svc d ext ufn = Inr (d\<lparr>filenames := Some paths\<rparr>, effs)
             \<and> requests effs = map GetDownload oids
             \<and> written effs = paths
             \<and> printed effs
                 = concat (map (\<lambda>t. download_lines (snd t) (measured svc (fst t))) (zip oids paths))
             \<and> map line_kind (printed effs) = concat (replicate (length oids) download_report))
      \<and> (\<forall>oid path. download_one svc oid path
            = [Request (GetDownload oid)] @ map Printed (download_lines path (measured svc oid))
              @ [Wrote path]
          \<and> hd (download_lines path (measured svc oid)) = ''Downloading '' @ path
          \<and> map line_kind (download_lines path (measured svc oid)) = download_report)
      \<and> (\<forall>f\<in>set (content r).
            CHR ''/'' \<notin> set (file_name ext ufn f) \<and> (\<exists>c\<in>set (download_dir d). c \<noteq> CHR ''/'') \<longrightarrow>
            dirname (path_join (download_dir d) (file_name ext ufn f))
              = rstrip CHR ''/'' (download_dir d))
      \<and> (download_dir d = download_dir_path w \<longrightarrow>
            map (\<lambda>rq. path_join (download_dir d) (file_name None (Some (user_filename rq)) any))
              sst_requests
              = sst_download_paths w)"
proof -
  let ?paths = "map (\<lambda>f. path_join (download_dir d) (file_name ext ufn f)) (content r)"
  let ?ts = "zip oids ?paths"
  let ?effs = "concat (map (\<lambda>t. download_one svc (fst t) (snd t)) ?ts)"
  have paths: "map (target_path d ext ufn) (content r) = ?paths"
    by (simp add: target_path_def)
  have fst_ts: "map fst ?ts = oids" and snd_ts: "map snd ?ts = ?paths"
    using assms(3) by simp_all
  have run: "download_data_of svc d ext ufn = Inr (d\<lparr>filenames := Some ?paths\<rparr>, ?effs)"
    using assms(1,2) snd_ts by (simp add: download_data_of_def Let_def paths)
  have reqs: "requests ?effs = map GetDownload oids"
    unfolding requests_of_targets map_map[symmetric] fst_ts ..
  have wr: "written ?effs = ?paths"
    unfolding written_of_targets snd_ts ..
  have "length ?ts = length oids" using assms(3) by simp
  then have kinds: "map line_kind (printed ?effs) = concat (replicate (length oids) download_report)"
    unfolding printed_targets kinds_of_targets by (simp add: map_replicate_const)
  have one: "\<forall>oid path. download_one svc oid path
            = [Request (GetDownload oid)] @ map Printed (download_lines path (measured svc oid))
              @ [Wrote path]
          \<and> hd (download_lines path (measured svc oid)) = ''Downloading '' @ path
          \<and> map line_kind (download_lines path (measured svc oid)) = download_report"
    using line_kinds_of_download by (simp add: download_one_def download_lines_def)
  have inside: "\<forall>f\<in>set (content r).
            CHR ''/'' \<notin> set (file_name ext ufn f) \<and> (\<exists>c\<in>set (download_dir d). c \<noteq> CHR ''/'') \<longrightarrow>
            dirname (path_join (download_dir d) (file_name ext ufn f))
              = rstrip CHR ''/'' (download_dir d)"
    using dirname_path_join by blast
  have marine: "download_dir d = download_dir_path w \<longrightarrow>
            map (\<lambda>rq. path_join (download_dir d) (file_name None (Some (user_filename rq)) any))
              sst_requests
              = sst_download_paths w"
    by (simp add: file_name_def sst_download_paths_def)
  show ?thesis
    unfolding Let_def
    using run reqs wr printed_targets[of svc ?ts] kinds one inside marine
    by (intro conjI) assumption+
qed

theorem download_prints_progress_witness:
  "\<exists>d' effs. download_data_of recorded_service after_rename (Some ''.nc'') None = Inr (d', effs)
     \<and> requests effs = [GetDownload ''rNwI5K4U0mtVS3jWiHnoaaNuPAc'']
     \<and> written effs =
         [''/home/javitausia/Documentos/AIFEM/wekeo-jupyter-lab/wekeo-hda/data/waves_spain_forecast.nc'']
     \<and> filenames d' = Some (written effs)
     \<and> printed effs = recorded_download_data
     \<and> map line_kind (printed effs) = download_report
     \<and> dirname (hd (written effs))
         = ''/home/javitausia/Documentos/AIFEM/wekeo-jupyter-lab/wekeo-hda/data''"
proof -
  let ?r = "\<lparr>content = [\<lparr>filename = ''waves_spain_forecast''\<rparr>], totItems = 1, itemsInPage = 1\<rparr>"
  have state: "order_ids after_rename = Some [''rNwI5K4U0mtVS3jWiHnoaaNuPAc'']"
    "results after_rename = Some ?r"
    "length [''rNwI5K4U0mtVS3jWiHnoaaNuPAc''] = length (content ?r)"
    by (simp_all add: after_rename_def after_orders_def after_results_def after_job_def
          recorded_session_def)
  have dir: "download_dir after_rename
       = ''/home/javitausia/Documentos/AIFEM/wekeo-jupyter-lab/wekeo-hda/data/''"
    by (simp add: after_rename_def after_orders_def after_results_def after_job_def
          recorded_session_def)
  have target: "path_join ''/home/javitausia/Documentos/AIFEM/wekeo-jupyter-lab/wekeo-hda/data/''
        ''waves_spain_forecast.nc''
      = ''/home/javitausia/Documentos/AIFEM/wekeo-jupyter-lab/wekeo-hda/data/waves_spain_forecast.nc''"
    by (simp add: path_join_def)
  have name: "file_name (Some ''.nc'') None \<lparr>filename = ''waves_spain_forecast''\<rparr>
      = ''waves_spain_forecast.nc''"
    by (simp add: file_name_def)
  have lines: "download_lines p (measured recorded_service oid)
      = [''Downloading '' @ p,
         ''File size is:     0.21 MB'',
         ''[==================================================]     16.82 Mbps[    0.21] MB downloaded, 15885.94 kbps'',
         ''Download complete...'',
         ''Time Elapsed: 0.013772182999999938 seconds'']" for p oid
    by (simp add: download_lines_def recorded_service_def full_bar)
  note inst = download_prints_progress[where svc = recorded_service and d = after_rename
      and ext = "Some ''.nc''" and ufn = None and w = sample_world
      and any = "\<lparr>filename = []\<rparr>", OF state, unfolded Let_def]
  from inst have run: "download_data_of recorded_service after_rename (Some ''.nc'') None
      = Inr (after_rename\<lparr>filenames := Some
               [''/home/javitausia/Documentos/AIFEM/wekeo-jupyter-lab/wekeo-hda/data/waves_spain_forecast.nc'']\<rparr>,
             download_one recorded_service ''rNwI5K4U0mtVS3jWiHnoaaNuPAc''
               ''/home/javitausia/Documentos/AIFEM/wekeo-jupyter-lab/wekeo-hda/data/waves_spain_forecast.nc'')"
    by (simp add: target name dir)
  from inst have inside: "dirname
        ''/home/javitausia/Documentos/AIFEM/wekeo-jupyter-lab/wekeo-hda/data/waves_spain_forecast.nc''
      = ''/home/javitausia/Documentos/AIFEM/wekeo-jupyter-lab/wekeo-hda/data''"
    by (simp add: target name dir)
  show ?thesis
    unfolding run
    by (simp add: requests_download_one written_download_one printed_download_one lines
          recorded_download_data_def inside line_kind_def download_report_def)
qed

end
